theory Spec2Isabelle
  imports Complex_Main
begin

section \<open>The SecureSBOM SDK example programs: sign, verify, keymgmt\<close>

text \<open>
  The repository holds three command line programs over the package
  \<^verbatim>\<open>pkg/securesbom\<close>: \<^verbatim>\<open>sign\<close>, \<^verbatim>\<open>verify\<close>
  (\<^verbatim>\<open>cmd/examples/verify/verify.go\<close>) and \<^verbatim>\<open>keymgmt\<close>. The programs are
  embedded function by function. The package itself (configuration builder, base client,
  retrying client) is not among the source files; its operations are modelled from the
  specification and marked so. The remote service, the Go runtime and the operating
  system are parameters of the model (\<open>platform\<close>).
\<close>

subsection \<open>Durations, contexts, errors\<close>

text \<open>
  \<^verbatim>\<open>time.Duration\<close> is a signed 64-bit count of nanoseconds; it is an \<open>int\<close> here,
  and the one addition the programs perform on it is wrapped by \<open>wrap64\<close>.
\<close>

type_synonym Duration = int

definition Second :: Duration where
  "Second = 1000000000"

definition wrap64 :: "int \<Rightarrow> int" where
  "wrap64 x = (x + 2 ^ 63) mod 2 ^ 64 - 2 ^ 63"

text \<open>\<^verbatim>\<open>context.WithTimeout(context.Background(), d)\<close>.\<close>

datatype "context" = Background | ctx_WithTimeout "context" Duration

text \<open>The two errors a done context reports (\<^verbatim>\<open>ctx.Err()\<close>).\<close>

datatype ctx_err = Canceled | DeadlineExceeded

text \<open>
  Modelled from the spec: the error kinds of section 7 (the package's error types are
  not among the source files). \<open>Errorf\<close> is \<^verbatim>\<open>fmt.Errorf\<close> with a message only and
  \<open>Wrapped\<close> is \<^verbatim>\<open>fmt.Errorf("...: %w", err)\<close>; the programs use both themselves.
\<close>

datatype error =
    ConfigurationError string
  | APIError int string
  | TransportError string
  | LocalIOError string
  | ContextError ctx_err
  | RetriesExhausted error
  | Errorf string
  | Wrapped string error

text \<open>
  Modelled from the spec: the derived classification of an error (section 4.2):
  5xx and connection-level failures are temporary, 429 is temporary, 4xx other than
  429 is permanent; a configuration error and a local I/O error are never retried
  (section 7). The spec classifies no other error; here they count as permanent.
\<close>

fun Temporary :: "error \<Rightarrow> bool" where
  "Temporary (APIError code msg) = ((500 \<le> code \<and> code \<le> 599) \<or> code = 429)"
| "Temporary (TransportError msg) = True"
| "Temporary (ConfigurationError msg) = False"
| "Temporary (LocalIOError msg) = False"
| "Temporary (ContextError ce) = False"
| "Temporary (RetriesExhausted e) = False"
| "Temporary (Errorf msg) = False"
| "Temporary (Wrapped msg e) = False"

subsection \<open>Results of the operations\<close>

text \<open>
  The fields are the ones the programs read. \<^verbatim>\<open>time.Time\<close> is an instant counted
  from Go's zero time, so that \<^verbatim>\<open>IsZero\<close> is \<open>t = 0\<close>.
\<close>

type_synonym Time = int

record VerifyResultCMDResponse =
  Valid :: bool
  Message :: string
  Timestamp :: Time
  KeyID :: string
  Algorithm :: string

record Key =
  key_ID :: string
  key_CreatedAt :: Time
  key_Algorithm :: string

record KeyListResponse =
  Keys :: "Key list"

record GenerateKeyCMDResponse =
  gen_ID :: string
  gen_CreatedAt :: Time
  gen_Algorithm :: string
  gen_PublicKey :: string

text \<open>The signed document and the loaded SBOM are only passed on by the programs.\<close>

datatype SignResultAPIResponse = SignResult string

datatype SBOM = SBOM string

fun Data :: "SBOM \<Rightarrow> string" where
  "Data (SBOM d) = d"

subsection \<open>Observable events and the world\<close>

text \<open>One request of the client contract, as sent in one HTTP call.\<close>

datatype request =
    ReqHealthCheck
  | ReqListKeys
  | ReqGenerateKey
  | ReqGetPublicKey string
  | ReqSignSBOM string string
  | ReqVerifySBOM string string
  | ReqVerifySPDXSBOM string string string

text \<open>What is handed to the JSON encoder.\<close>

datatype jvalue = JBool bool | JString string

datatype encodable =
    EncMap "(string \<times> jvalue) list"
  | EncKeyList KeyListResponse
  | EncGeneratedKey GenerateKeyCMDResponse
  | EncSignResult SignResultAPIResponse

text \<open>
  The trace of a run: every HTTP attempt of the base client, every backoff wait (completed,
  or interrupted by the context), and every output of a program, in the order they happen.
  \<open>Progress\<close> is a line on standard error, \<open>LogPrint\<close> and \<open>LogFatal\<close> are the
  \<^verbatim>\<open>log\<close> package's (message and error), \<open>Usage\<close> is the text of
  \<^verbatim>\<open>printUsage\<close>, \<open>Print\<close> is text on standard output, \<open>Table\<close> the rows flushed
  by the tab writer, \<open>Encode\<close> a value handed to the JSON encoder on standard output, and
  \<open>WriteFile\<close> a call of \<^verbatim>\<open>os.WriteFile\<close> with name, data and mode.
\<close>

datatype event =
    Attempt request
  | Waited real
  | Interrupted real ctx_err
  | Progress string
  | LogPrint string
  | LogFatal string "error option"
  | Usage
  | Print string
  | Table "string list list"
  | Encode encodable
  | WriteFile string string nat

record 's world =
  ext :: 's
  trace :: "event list"

subsection \<open>The platform: what lies outside the repository\<close>

text \<open>
  One field per effect the code relies on: one HTTP exchange per operation of the remote
  service, the interruptible timer of the Go runtime, the environment, files, standard
  input and output, JSON encoding and time formatting. Each acts on the external state
  \<open>'s\<close> only.
\<close>

record Config =
  APIKey :: string
  BaseURL :: "string option"
  Timeout :: "Duration option"
  UserAgent :: "string option"

record 's platform =
  http_HealthCheck :: "Config \<Rightarrow> context \<Rightarrow> 's \<Rightarrow> (error + unit) \<times> 's"
  http_ListKeys :: "Config \<Rightarrow> context \<Rightarrow> 's \<Rightarrow> (error + KeyListResponse) \<times> 's"
  http_GenerateKey :: "Config \<Rightarrow> context \<Rightarrow> 's \<Rightarrow> (error + GenerateKeyCMDResponse) \<times> 's"
  http_GetPublicKey :: "Config \<Rightarrow> context \<Rightarrow> string \<Rightarrow> 's \<Rightarrow> (error + string) \<times> 's"
  http_SignSBOM ::
    "Config \<Rightarrow> context \<Rightarrow> string \<Rightarrow> string \<Rightarrow> 's \<Rightarrow> (error + SignResultAPIResponse) \<times> 's"
  http_VerifySBOM ::
    "Config \<Rightarrow> context \<Rightarrow> string \<Rightarrow> string \<Rightarrow> 's \<Rightarrow> (error + VerifyResultCMDResponse) \<times> 's"
  http_VerifySPDXSBOM ::
    "Config \<Rightarrow> context \<Rightarrow> string \<Rightarrow> string \<Rightarrow> string \<Rightarrow> 's
      \<Rightarrow> (error + VerifyResultCMDResponse) \<times> 's"
  ctx_wait :: "context \<Rightarrow> real \<Rightarrow> 's \<Rightarrow> ctx_err option \<times> 's"
  os_Getenv :: "string \<Rightarrow> string option"
  LoadSBOMFromReader :: "'s \<Rightarrow> (error + SBOM) \<times> 's"
  LoadSBOMFromFile :: "string \<Rightarrow> 's \<Rightarrow> (error + SBOM) \<times> 's"
  os_WriteFile :: "string \<Rightarrow> string \<Rightarrow> nat \<Rightarrow> 's \<Rightarrow> error option \<times> 's"
  stdout_Encode :: "encodable \<Rightarrow> 's \<Rightarrow> error option \<times> 's"
  json_MarshalIndent :: "encodable \<Rightarrow> error + string"
  time_Format :: "string \<Rightarrow> Time \<Rightarrow> string"

subsection \<open>Retry policy and the clients\<close>

text \<open>
  The fields of \<^verbatim>\<open>securesbom.RetryConfig\<close> as the programs fill them
  (\<^verbatim>\<open>createClient\<close> of sign and verify).
\<close>

record RetryConfig =
  MaxAttempts :: int
  InitialWait :: Duration
  MaxWait :: Duration
  Multiplier :: real

text \<open>
  Modelled from the spec: \<^verbatim>\<open>securesbom.ClientInterface\<close> has two implementations
  (sections 4.2 and 4.3), the base client bound to a configuration and the retrying client
  that wraps another client; neither is among the source files.
\<close>

datatype client = BaseClient Config | RetryingClient client RetryConfig

text \<open>
  Modelled from the spec: the wait of the retry policy (section 3),
  \<open>wait_n = min (initial * multiplier ^ (n - 1)) max_wait\<close>.
\<close>

definition wait_n :: "RetryConfig \<Rightarrow> int \<Rightarrow> real" where
  "wait_n rc n =
     min (real_of_int (InitialWait rc) * Multiplier rc ^ nat (n - 1))
         (real_of_int (MaxWait rc))"

text \<open>
  Modelled from the spec: the base client performs exactly one attempt per call
  (section 4.2): one HTTP exchange, recorded in the trace.
\<close>

definition attempt ::
  "request \<Rightarrow> ('s \<Rightarrow> (error + 'a) \<times> 's) \<Rightarrow> 's world \<Rightarrow> (error + 'a) \<times> 's world" where
  "attempt req f w =
     (case f (ext w) of
        (r, s') \<Rightarrow> (r, w\<lparr>ext := s', trace := trace w @ [Attempt req]\<rparr>))"

text \<open>
  Modelled from the spec: the wait between two attempts (section 4.3): it ends early
  with the context's error when the context is done first.
\<close>

definition backoff ::
  "'s platform \<Rightarrow> context \<Rightarrow> real \<Rightarrow> 's world \<Rightarrow> ctx_err option \<times> 's world" where
  "backoff pf ctx d w =
     (case ctx_wait pf ctx d (ext w) of
        (Some ce, s') \<Rightarrow> (Some ce, w\<lparr>ext := s', trace := trace w @ [Interrupted d ce]\<rparr>)
      | (None, s') \<Rightarrow> (None, w\<lparr>ext := s', trace := trace w @ [Waited d]\<rparr>))"

text \<open>
  Modelled from the spec: the algorithm of the retrying client decorator, per operation
  call (section 4.3, steps 2 to 6). \<open>n\<close> is the attempt counter, \<open>op\<close> the wrapped
  client's method. The method is invoked (step 2); a success is returned (step 3); a
  permanent error is returned (step 4); after a temporary error with \<open>n < MaxAttempts\<close>
  the decorator waits \<open>wait_n rc n\<close>, returns the context's error if the context ends
  during the wait, and otherwise goes on with \<open>n + 1\<close> (step 5); with no attempt left the
  last error is returned wrapped as \<open>RetriesExhausted\<close> (step 6). The sentence of section
  4.3 on \<open>MaxAttempts\<close> of 0 or 1 is a statement about this algorithm and is not built
  into it.
\<close>

function retry_from ::
  "'s platform \<Rightarrow> RetryConfig \<Rightarrow> context \<Rightarrow> ('s world \<Rightarrow> (error + 'a) \<times> 's world)
    \<Rightarrow> int \<Rightarrow> 's world \<Rightarrow> (error + 'a) \<times> 's world" where
  "retry_from pf rc ctx op n w =
     (case op w of
        (Inr v, w1) \<Rightarrow> (Inr v, w1)
      | (Inl e, w1) \<Rightarrow>
          if \<not> Temporary e then (Inl e, w1)
          else if n < MaxAttempts rc then
            (case backoff pf ctx (wait_n rc n) w1 of
               (Some ce, w2) \<Rightarrow> (Inl (ContextError ce), w2)
             | (None, w2) \<Rightarrow> retry_from pf rc ctx op (n + 1) w2)
          else (Inl (RetriesExhausted e), w1))"
  by pat_completeness auto
termination
  by (relation "measure (\<lambda>(pf, rc, ctx, op, n, w). nat (MaxAttempts rc - n))") auto

declare retry_from.simps [simp del]

text \<open>Modelled from the spec: the attempt counter starts at 1 (section 4.3, step 1).\<close>

definition retry ::
  "'s platform \<Rightarrow> RetryConfig \<Rightarrow> context \<Rightarrow> ('s world \<Rightarrow> (error + 'a) \<times> 's world)
    \<Rightarrow> 's world \<Rightarrow> (error + 'a) \<times> 's world" where
  "retry pf rc ctx op w = retry_from pf rc ctx op 1 w"

text \<open>
  Modelled from the spec: \<^verbatim>\<open>securesbom.WithRetryingClient(baseClient, retryConfig)\<close>
  wraps any client of the contract (section 4.3).
\<close>

definition WithRetryingClient :: "client \<Rightarrow> RetryConfig \<Rightarrow> client" where
  "WithRetryingClient c rc = RetryingClient c rc"

text \<open>
  Modelled from the spec: the seven methods of the client contract (sections 4.2 and 4.3).
  The base client sends one request; the retrying client runs the decorator around the
  same method of the client it wraps.
\<close>

primrec HealthCheck ::
  "'s platform \<Rightarrow> client \<Rightarrow> context \<Rightarrow> 's world \<Rightarrow> (error + unit) \<times> 's world" where
  "HealthCheck pf (BaseClient cfg) ctx = attempt ReqHealthCheck (http_HealthCheck pf cfg ctx)"
| "HealthCheck pf (RetryingClient c rc) ctx = retry pf rc ctx (HealthCheck pf c ctx)"

primrec ListKeys ::
  "'s platform \<Rightarrow> client \<Rightarrow> context \<Rightarrow> 's world \<Rightarrow> (error + KeyListResponse) \<times> 's world" where
  "ListKeys pf (BaseClient cfg) ctx = attempt ReqListKeys (http_ListKeys pf cfg ctx)"
| "ListKeys pf (RetryingClient c rc) ctx = retry pf rc ctx (ListKeys pf c ctx)"

primrec GenerateKey ::
  "'s platform \<Rightarrow> client \<Rightarrow> context \<Rightarrow> 's world
    \<Rightarrow> (error + GenerateKeyCMDResponse) \<times> 's world" where
  "GenerateKey pf (BaseClient cfg) ctx = attempt ReqGenerateKey (http_GenerateKey pf cfg ctx)"
| "GenerateKey pf (RetryingClient c rc) ctx = retry pf rc ctx (GenerateKey pf c ctx)"

primrec GetPublicKey ::
  "'s platform \<Rightarrow> client \<Rightarrow> context \<Rightarrow> string \<Rightarrow> 's world \<Rightarrow> (error + string) \<times> 's world" where
  "GetPublicKey pf (BaseClient cfg) ctx keyID =
     attempt (ReqGetPublicKey keyID) (http_GetPublicKey pf cfg ctx keyID)"
| "GetPublicKey pf (RetryingClient c rc) ctx keyID =
     retry pf rc ctx (GetPublicKey pf c ctx keyID)"

primrec SignSBOM ::
  "'s platform \<Rightarrow> client \<Rightarrow> context \<Rightarrow> string \<Rightarrow> string \<Rightarrow> 's world
    \<Rightarrow> (error + SignResultAPIResponse) \<times> 's world" where
  "SignSBOM pf (BaseClient cfg) ctx keyID sbom =
     attempt (ReqSignSBOM keyID sbom) (http_SignSBOM pf cfg ctx keyID sbom)"
| "SignSBOM pf (RetryingClient c rc) ctx keyID sbom =
     retry pf rc ctx (SignSBOM pf c ctx keyID sbom)"

primrec VerifySBOM ::
  "'s platform \<Rightarrow> client \<Rightarrow> context \<Rightarrow> string \<Rightarrow> string \<Rightarrow> 's world
    \<Rightarrow> (error + VerifyResultCMDResponse) \<times> 's world" where
  "VerifySBOM pf (BaseClient cfg) ctx keyID sbom =
     attempt (ReqVerifySBOM keyID sbom) (http_VerifySBOM pf cfg ctx keyID sbom)"
| "VerifySBOM pf (RetryingClient c rc) ctx keyID sbom =
     retry pf rc ctx (VerifySBOM pf c ctx keyID sbom)"

primrec VerifySPDXSBOM ::
  "'s platform \<Rightarrow> client \<Rightarrow> context \<Rightarrow> string \<Rightarrow> string \<Rightarrow> string \<Rightarrow> 's world
    \<Rightarrow> (error + VerifyResultCMDResponse) \<times> 's world" where
  "VerifySPDXSBOM pf (BaseClient cfg) ctx keyID sig sbom =
     attempt (ReqVerifySPDXSBOM keyID sig sbom) (http_VerifySPDXSBOM pf cfg ctx keyID sig sbom)"
| "VerifySPDXSBOM pf (RetryingClient c rc) ctx keyID sig sbom =
     retry pf rc ctx (VerifySPDXSBOM pf c ctx keyID sig sbom)"

subsection \<open>The configuration builder\<close>

text \<open>
  Modelled from the spec: the configuration builder (section 4.1 and the design notes),
  which is not among the source files. Each field remembers whether it is unset, filled
  from the environment, or set by an explicit call.
\<close>

datatype 'a setting = Unset | FromEnvironment 'a | Explicit 'a

record ConfigBuilder =
  b_APIKey :: "string setting"
  b_BaseURL :: "string setting"
  b_Timeout :: "Duration setting"
  b_UserAgent :: "string setting"

definition NewConfigBuilder :: ConfigBuilder where
  "NewConfigBuilder =
     \<lparr>b_APIKey = Unset, b_BaseURL = Unset, b_Timeout = Unset, b_UserAgent = Unset\<rparr>"

text \<open>Modelled from the spec: the setters are pure; the last writer wins.\<close>

definition WithAPIKey :: "string \<Rightarrow> ConfigBuilder \<Rightarrow> ConfigBuilder" where
  "WithAPIKey k b = b\<lparr>b_APIKey := Explicit k\<rparr>"

definition WithBaseURL :: "string \<Rightarrow> ConfigBuilder \<Rightarrow> ConfigBuilder" where
  "WithBaseURL u b = b\<lparr>b_BaseURL := Explicit u\<rparr>"

definition WithTimeout :: "Duration \<Rightarrow> ConfigBuilder \<Rightarrow> ConfigBuilder" where
  "WithTimeout d b = b\<lparr>b_Timeout := Explicit d\<rparr>"

definition WithUserAgent :: "string \<Rightarrow> ConfigBuilder \<Rightarrow> ConfigBuilder" where
  "WithUserAgent a b = b\<lparr>b_UserAgent := Explicit a\<rparr>"

text \<open>
  Modelled from the spec: \<^verbatim>\<open>FromEnv\<close> fills only fields not already explicitly
  set, from \<^verbatim>\<open>SECURE_SBOM_API_KEY\<close> and \<^verbatim>\<open>SECURE_SBOM_BASE_URL\<close>.
\<close>

fun fill :: "'a setting \<Rightarrow> 'a option \<Rightarrow> 'a setting" where
  "fill (Explicit v) x = Explicit v"
| "fill s None = s"
| "fill s (Some v) = FromEnvironment v"

definition FromEnv :: "(string \<Rightarrow> string option) \<Rightarrow> ConfigBuilder \<Rightarrow> ConfigBuilder" where
  "FromEnv getenv b =
     b\<lparr>b_APIKey := fill (b_APIKey b) (getenv ''SECURE_SBOM_API_KEY''),
       b_BaseURL := fill (b_BaseURL b) (getenv ''SECURE_SBOM_BASE_URL'')\<rparr>"

fun effective :: "'a setting \<Rightarrow> 'a option" where
  "effective Unset = None"
| "effective (FromEnvironment v) = Some v"
| "effective (Explicit v) = Some v"

text \<open>
  Modelled from the spec: \<^verbatim>\<open>BuildClient\<close> validates that an API key is present
  and non-empty, and fails with a configuration error otherwise; a field left unset
  stays \<open>None\<close> in the configuration, which stands for the package's default.
\<close>

definition BuildClient :: "ConfigBuilder \<Rightarrow> error + client" where
  "BuildClient b =
     (case effective (b_APIKey b) of
        None \<Rightarrow> Inl (ConfigurationError ''API key is required'')
      | Some k \<Rightarrow>
          if k = [] then Inl (ConfigurationError ''API key is required'')
          else Inr (BaseClient \<lparr>APIKey = k, BaseURL = effective (b_BaseURL b),
                 Timeout = effective (b_Timeout b), UserAgent = effective (b_UserAgent b)\<rparr>))"

text \<open>A call of the builder, to speak about call sequences.\<close>

datatype builder_call =
    CallWithAPIKey string
  | CallWithBaseURL string
  | CallWithTimeout Duration
  | CallWithUserAgent string
  | CallFromEnv

fun apply_call :: "(string \<Rightarrow> string option) \<Rightarrow> ConfigBuilder \<Rightarrow> builder_call \<Rightarrow> ConfigBuilder" where
  "apply_call getenv b (CallWithAPIKey k) = WithAPIKey k b"
| "apply_call getenv b (CallWithBaseURL u) = WithBaseURL u b"
| "apply_call getenv b (CallWithTimeout d) = WithTimeout d b"
| "apply_call getenv b (CallWithUserAgent a) = WithUserAgent a b"
| "apply_call getenv b CallFromEnv = FromEnv getenv b"

definition apply_calls ::
  "(string \<Rightarrow> string option) \<Rightarrow> builder_call list \<Rightarrow> ConfigBuilder \<Rightarrow> ConfigBuilder" where
  "apply_calls getenv calls b = foldl (apply_call getenv) b calls"

subsection \<open>Command lines and output helpers\<close>

text \<open>
  A command line as the \<^verbatim>\<open>flag\<close> package has parsed it: the value given for each
  flag that was given, by kind, and the remaining arguments. The programs are modelled
  from the point where parsing has succeeded.
\<close>

record cmdline =
  string_flags :: "string \<Rightarrow> string option"
  int_flags :: "string \<Rightarrow> int option"
  duration_flags :: "string \<Rightarrow> Duration option"
  bool_flags :: "string \<Rightarrow> bool option"
  positional :: "string list"

text \<open>
  \<^verbatim>\<open>flag.String(name, value, usage)\<close> and its siblings allocate the flag's variable
  and return its address: the pointer (\<open>None\<close> is \<^verbatim>\<open>nil\<close>) is never nil, and
  after parsing the variable holds the given value or else the default.
\<close>

definition flag_String :: "cmdline \<Rightarrow> string \<Rightarrow> string \<Rightarrow> string option" where
  "flag_String cl name val =
     Some (case string_flags cl name of Some v \<Rightarrow> v | None \<Rightarrow> val)"

definition flag_Int :: "cmdline \<Rightarrow> string \<Rightarrow> int \<Rightarrow> int option" where
  "flag_Int cl name val =
     Some (case int_flags cl name of Some v \<Rightarrow> v | None \<Rightarrow> val)"

definition flag_Duration :: "cmdline \<Rightarrow> string \<Rightarrow> Duration \<Rightarrow> Duration option" where
  "flag_Duration cl name val =
     Some (case duration_flags cl name of Some v \<Rightarrow> v | None \<Rightarrow> val)"

definition flag_Bool :: "cmdline \<Rightarrow> string \<Rightarrow> bool \<Rightarrow> bool option" where
  "flag_Bool cl name val =
     Some (case bool_flags cl name of Some v \<Rightarrow> v | None \<Rightarrow> val)"

text \<open>
  \<^verbatim>\<open>*p\<close>. Every pointer the programs dereference is one a flag function returned,
  so it is never nil.
\<close>

primrec deref :: "'a option \<Rightarrow> 'a" where
  "deref (Some v) = v"

definition nl :: string where
  "nl = [CHR 0x0A]"

definition quote :: string where
  "quote = [CHR 0x27]"

definition emit :: "event \<Rightarrow> 's world \<Rightarrow> 's world" where
  "emit ev w = w\<lparr>trace := trace w @ [ev]\<rparr>"

text \<open>
  \<^verbatim>\<open>log.Fatal\<close> and \<^verbatim>\<open>log.Fatalf\<close> print the message and call
  \<^verbatim>\<open>os.Exit(1)\<close>.
\<close>

definition log_Fatal :: "string \<Rightarrow> error option \<Rightarrow> 's world \<Rightarrow> int \<times> 's world" where
  "log_Fatal msg err w = (1, emit (LogFatal msg err) w)"

text \<open>\<^verbatim>\<open>encoder.Encode(v)\<close> on a JSON encoder over standard output.\<close>

definition json_Encode :: "'s platform \<Rightarrow> encodable \<Rightarrow> 's world \<Rightarrow> error option \<times> 's world" where
  "json_Encode pf v w =
     (case stdout_Encode pf v (ext w) of
        (r, s') \<Rightarrow> (r, w\<lparr>ext := s', trace := trace w @ [Encode v]\<rparr>))"

text \<open>\<^verbatim>\<open>os.WriteFile(name, data, perm)\<close>.\<close>

definition WriteFile_os ::
  "'s platform \<Rightarrow> string \<Rightarrow> string \<Rightarrow> nat \<Rightarrow> 's world \<Rightarrow> error option \<times> 's world" where
  "WriteFile_os pf name data perm w =
     (case os_WriteFile pf name data perm (ext w) of
        (r, s') \<Rightarrow> (r, w\<lparr>ext := s', trace := trace w @ [WriteFile name data perm]\<rparr>))"

text \<open>
  \<^verbatim>\<open>securesbom.LoadSBOMFromReader(os.Stdin)\<close> and
  \<^verbatim>\<open>securesbom.LoadSBOMFromFile(path)\<close> are platform parameters; \<open>load\<close> runs one
  of them on the world.
\<close>

definition load ::
  "('s \<Rightarrow> (error + SBOM) \<times> 's) \<Rightarrow> 's world \<Rightarrow> (error + SBOM) \<times> 's world" where
  "load f w = (case f (ext w) of (r, s') \<Rightarrow> (r, w\<lparr>ext := s'\<rparr>))"

text \<open>The file mode \<^verbatim>\<open>0644\<close> (octal).\<close>

definition perm_0644 :: nat where
  "perm_0644 = 6 * 64 + 4 * 8 + 4"

definition RFC3339 :: string where
  "RFC3339 = ''2006-01-02T15:04:05Z07:00''"

subsection \<open>The sign program\<close>

text \<open>\<^verbatim>\<open>createClient\<close> of the sign program.\<close>

definition sign_createClient ::
  "(string \<Rightarrow> string option) \<Rightarrow> string \<Rightarrow> string \<Rightarrow> Duration \<Rightarrow> int \<Rightarrow> error + client" where
  "sign_createClient getenv apiKey baseURL timeout retries =
     (let configBuilder = FromEnv getenv (WithTimeout timeout NewConfigBuilder);
          configBuilder = (if apiKey \<noteq> [] then WithAPIKey apiKey configBuilder else configBuilder);
          configBuilder = (if baseURL \<noteq> [] then WithBaseURL baseURL configBuilder else configBuilder)
      in case BuildClient configBuilder of
           Inl err \<Rightarrow> Inl (Wrapped ''failed to create base client'' err)
         | Inr baseClient \<Rightarrow>
             if retries > 0 then
               Inr (WithRetryingClient baseClient
                 \<lparr>MaxAttempts = retries, InitialWait = 1 * Second, MaxWait = 10 * Second,
                  Multiplier = 2\<rparr>)
             else Inr baseClient)"

definition loadSBOM :: "'s platform \<Rightarrow> string \<Rightarrow> 's world \<Rightarrow> (error + SBOM) \<times> 's world" where
  "loadSBOM pf path w =
     (if path = [] \<or> path = ''-'' then load (LoadSBOMFromReader pf) w
      else load (LoadSBOMFromFile pf path) w)"

definition outputSignedSBOM ::
  "'s platform \<Rightarrow> SignResultAPIResponse \<Rightarrow> string \<Rightarrow> 's world \<Rightarrow> error option \<times> 's world" where
  "outputSignedSBOM pf result outputPath w =
     (case json_MarshalIndent pf (EncSignResult result) of
        Inl err \<Rightarrow> (Some (Wrapped ''failed to marshal signed SBOM'' err), w)
      | Inr jsonData \<Rightarrow>
          if outputPath = [] \<or> outputPath = ''-'' then
            (None, emit (Print nl) (emit (Print jsonData) w))
          else
            (case WriteFile_os pf outputPath jsonData perm_0644 w of
               (Some err, w1) \<Rightarrow> (Some (Wrapped (''failed to write to file '' @ outputPath) err), w1)
             | (None, w1) \<Rightarrow> (None, w1)))"

definition sign_main :: "'s platform \<Rightarrow> cmdline \<Rightarrow> 's world \<Rightarrow> int \<times> 's world" where
  "sign_main pf cl w =
     (let keyID = flag_String cl ''key-id'' [];
          sbomPath = flag_String cl ''sbom'' [];
          outputPath = flag_String cl ''output'' [];
          apiKey = flag_String cl ''api-key'' [];
          baseURL = flag_String cl ''base-url'' [];
          timeout = flag_Duration cl ''timeout'' (30 * Second);
          retries = flag_Int cl ''retries'' 3;
          quiet = flag_Bool cl ''quiet'' False;
          help = flag_Bool cl ''help'' False
      in if deref help then (0, emit Usage w)
         else if deref keyID = [] then log_Fatal ''Error: -key-id is required'' None w
         else
          (case sign_createClient (os_Getenv pf) (deref apiKey) (deref baseURL) (deref timeout)
                  (deref retries) of
             Inl err \<Rightarrow> log_Fatal ''Error creating SDK client'' (Some err) w
           | Inr client \<Rightarrow>
              (let ctx = ctx_WithTimeout Background (wrap64 (deref timeout + 10 * Second));
                   w1 = (if \<not> deref quiet then emit (Progress (''Loading SBOM...'' @ nl)) w else w)
               in (case loadSBOM pf (deref sbomPath) w1 of
                    (Inl err, w2) \<Rightarrow> log_Fatal ''Error loading SBOM'' (Some err) w2
                  | (Inr sbom, w2) \<Rightarrow>
                     (let w3 = (if \<not> deref quiet
                                then emit (Progress (''Connecting to SecureSBOM API...'' @ nl)) w2
                                else w2)
                      in (case HealthCheck pf client ctx w3 of
                           (Inl err, w4) \<Rightarrow> log_Fatal ''Error connecting to API'' (Some err) w4
                         | (Inr u, w4) \<Rightarrow>
                            (let w5 = (if \<not> deref quiet
                                       then emit (Progress (''Signing SBOM with key '' @ deref keyID
                                                   @ ''...'' @ nl)) w4
                                       else w4)
                             in (case SignSBOM pf client ctx (deref keyID) (Data sbom) w5 of
                                  (Inl err, w6) \<Rightarrow> log_Fatal ''Error signing SBOM'' (Some err) w6
                                | (Inr result, w6) \<Rightarrow>
                                    (case outputSignedSBOM pf result (deref outputPath) w6 of
                                       (Some err, w7) \<Rightarrow>
                                         log_Fatal ''Error outputting signed SBOM'' (Some err) w7
                                     | (None, w7) \<Rightarrow>
                                         if \<not> deref quiet then
                                          (let w8 = emit (Progress
                                                 ([CHR 0xC3, CHR 0xA2, CHR 0xC5, CHR 0x93, CHR 0xE2,
                                                   CHR 0x80, CHR 0x9C]
                                                  @ '' SBOM successfully signed'' @ nl)) w7
                                           in if deref outputPath \<noteq> [] \<and> deref outputPath \<noteq> ''-''
                                              then (0, emit (Progress (''  Output written to: ''
                                                          @ deref outputPath @ nl)) w8)
                                              else (0, emit (Progress (''  Output written to stdout''
                                                          @ nl)) w8))
                                         else (0, w7))))))))))"

subsection \<open>The verify program\<close>

text \<open>\<^verbatim>\<open>createClient\<close> of the verify program.\<close>

definition verify_createClient ::
  "(string \<Rightarrow> string option) \<Rightarrow> string \<Rightarrow> string \<Rightarrow> Duration \<Rightarrow> int \<Rightarrow> error + client" where
  "verify_createClient getenv apiKey baseURL timeout retries =
     (let configBuilder = FromEnv getenv (WithTimeout timeout NewConfigBuilder);
          configBuilder = (if apiKey \<noteq> [] then WithAPIKey apiKey configBuilder else configBuilder);
          configBuilder = (if baseURL \<noteq> [] then WithBaseURL baseURL configBuilder else configBuilder)
      in case BuildClient configBuilder of
           Inl err \<Rightarrow> Inl (Wrapped ''failed to create base client'' err)
         | Inr baseClient \<Rightarrow>
             if retries > 0 then
               Inr (WithRetryingClient baseClient
                 \<lparr>MaxAttempts = retries, InitialWait = 1 * Second, MaxWait = 10 * Second,
                  Multiplier = 2\<rparr>)
             else Inr baseClient)"

definition loadSignedSBOM :: "'s platform \<Rightarrow> string \<Rightarrow> 's world \<Rightarrow> (error + SBOM) \<times> 's world" where
  "loadSignedSBOM pf path w =
     (if path = [] \<or> path = ''-'' then load (LoadSBOMFromReader pf) w
      else load (LoadSBOMFromFile pf path) w)"

definition outputVerificationJSON ::
  "'s platform \<Rightarrow> VerifyResultCMDResponse \<Rightarrow> 's world \<Rightarrow> error option \<times> 's world" where
  "outputVerificationJSON pf result w =
     (let output = [(''valid'', JBool (Valid result)),
                    (''message'', JString (Message result)),
                    (''timestamp'', JString (time_Format pf RFC3339 (Timestamp result)))];
          output = output @ (if Valid result then [(''status'', JString ''VALID'')]
                             else [(''status'', JString ''INVALID'')]);
          output = output @ (if KeyID result \<noteq> [] then [(''key_id'', JString (KeyID result))]
                             else []);
          output = output @ (if Algorithm result \<noteq> []
                             then [(''algorithm'', JString (Algorithm result))] else [])
      in json_Encode pf (EncMap output) w)"

definition outputVerificationText ::
  "'s platform \<Rightarrow> VerifyResultCMDResponse \<Rightarrow> 's world \<Rightarrow> error option \<times> 's world" where
  "outputVerificationText pf result w =
     (let w1 = (if Valid result
                then emit (Print ([CHR 0xE2, CHR 0x9C, CHR 0x93] @ '' SBOM signature is VALID'' @ nl)) w
                else emit (Print ([CHR 0xE2, CHR 0x9C, CHR 0x97] @ '' SBOM signature is INVALID'' @ nl)) w);
          w2 = (if Message result \<noteq> []
                then emit (Print (''Message:    '' @ Message result @ nl)) w1 else w1);
          w3 = (if KeyID result \<noteq> []
                then emit (Print (''Key ID:     '' @ KeyID result @ nl)) w2 else w2);
          w4 = (if Algorithm result \<noteq> []
                then emit (Print (''Algorithm:  '' @ Algorithm result @ nl)) w3 else w3);
          w5 = (if Timestamp result \<noteq> 0
                then emit (Print (''Verified:   '' @ time_Format pf RFC3339 (Timestamp result) @ nl)) w4
                else w4)
      in (None, w5))"

definition outputVerificationResult ::
  "'s platform \<Rightarrow> VerifyResultCMDResponse \<Rightarrow> string \<Rightarrow> 's world \<Rightarrow> error option \<times> 's world" where
  "outputVerificationResult pf result format w =
     (if format = ''json'' then outputVerificationJSON pf result w
      else if format = ''text'' then outputVerificationText pf result w
      else (Some (Errorf (''unsupported output format: '' @ format)), w))"

text \<open>
  The tail of \<^verbatim>\<open>main\<close> of the verify program (lines 127 to 136), from the output of
  the result to the exit code; both branches of the verification end in it.
\<close>

definition verify_report ::
  "'s platform \<Rightarrow> VerifyResultCMDResponse \<Rightarrow> string \<Rightarrow> 's world \<Rightarrow> int \<times> 's world" where
  "verify_report pf result output w =
     (case outputVerificationResult pf result output w of
        (Some err, w1) \<Rightarrow> log_Fatal ''Error outputting verification result'' (Some err) w1
      | (None, w1) \<Rightarrow> if \<not> Valid result then (1, w1) else (0, w1))"

definition verify_main :: "'s platform \<Rightarrow> cmdline \<Rightarrow> 's world \<Rightarrow> int \<times> 's world" where
  "verify_main pf cl w =
     (let keyID = flag_String cl ''key-id'' [];
          sbomPath = flag_String cl ''sbom'' [];
          signature = flag_String cl ''signature'' [];
          apiKey = flag_String cl ''api-key'' [];
          baseURL = flag_String cl ''base-url'' [];
          output = flag_String cl ''output'' ''text'';
          timeout = flag_Duration cl ''timeout'' (30 * Second);
          retries = flag_Int cl ''retries'' 3;
          quiet = flag_Bool cl ''quiet'' False;
          help = flag_Bool cl ''help'' False
      in if deref help then (0, emit Usage w)
         else if deref keyID = [] then log_Fatal ''Error: -key-id is required'' None w
         else if deref output \<noteq> ''text'' \<and> deref output \<noteq> ''json'' then
           log_Fatal (''Error: -output must be '' @ quote @ ''text'' @ quote @ '' or '' @ quote
                      @ ''json'' @ quote) None w
         else
          (case verify_createClient (os_Getenv pf) (deref apiKey) (deref baseURL) (deref timeout)
                  (deref retries) of
             Inl err \<Rightarrow> log_Fatal ''Error creating SDK client'' (Some err) w
           | Inr client \<Rightarrow>
              (let ctx = ctx_WithTimeout Background (wrap64 (deref timeout + 10 * Second));
                   w1 = (if \<not> deref quiet then emit (Progress (''Loading SBOM...'' @ nl)) w else w)
               in (case loadSignedSBOM pf (deref sbomPath) w1 of
                    (Inl err, w2) \<Rightarrow> log_Fatal ''Error loading signed SBOM'' (Some err) w2
                  | (Inr sbom, w2) \<Rightarrow>
                     (let w3 = (if \<not> deref quiet
                                then emit (Progress (''Connecting to SecureSBOM API...'' @ nl)) w2
                                else w2)
                      in (case HealthCheck pf client ctx w3 of
                           (Inl err, w4) \<Rightarrow> log_Fatal ''Error connecting to API'' (Some err) w4
                         | (Inr u, w4) \<Rightarrow>
                            (let w5 = (if \<not> deref quiet
                                       then emit (Progress (''Verifying SBOM signature with key ''
                                                   @ deref keyID @ ''...'' @ nl)) w4
                                       else w4)
                             in if signature = None then
                                  (case VerifySBOM pf client ctx (deref keyID) (Data sbom)
                                          (emit (LogPrint ''Verifying CycloneDX SBOM'') w5) of
                                     (Inl err, w6) \<Rightarrow> log_Fatal ''Error verifying SBOM'' (Some err) w6
                                   | (Inr result, w6) \<Rightarrow> verify_report pf result (deref output) w6)
                                else
                                  (case VerifySPDXSBOM pf client ctx (deref keyID) (deref signature)
                                          (Data sbom) (emit (LogPrint ''Verifying SPDX SBOM'') w5) of
                                     (Inl err, w6) \<Rightarrow> log_Fatal ''Error verifying SBOM'' (Some err) w6
                                   | (Inr result, w6) \<Rightarrow>
                                       verify_report pf result (deref output) w6))))))))"

subsection \<open>The keymgmt program\<close>

text \<open>\<^verbatim>\<open>createClient\<close> of the keymgmt program.\<close>

definition keymgmt_createClient ::
  "(string \<Rightarrow> string option) \<Rightarrow> string \<Rightarrow> string \<Rightarrow> Duration \<Rightarrow> error + client" where
  "keymgmt_createClient getenv apiKey baseURL timeout =
     (let configBuilder = FromEnv getenv (WithTimeout timeout NewConfigBuilder);
          configBuilder = (if apiKey \<noteq> [] then WithAPIKey apiKey configBuilder else configBuilder);
          configBuilder = (if baseURL \<noteq> [] then WithBaseURL baseURL configBuilder else configBuilder)
      in BuildClient configBuilder)"

text \<open>
  The output functions return the exit code \<open>0\<close> when they return to their caller;
  \<^verbatim>\<open>outputJSON\<close> ends the process with \<open>1\<close> when encoding fails.
\<close>

definition outputJSON :: "'s platform \<Rightarrow> encodable \<Rightarrow> 's world \<Rightarrow> int \<times> 's world" where
  "outputJSON pf data w =
     (case json_Encode pf data w of
        (Some err, w1) \<Rightarrow> log_Fatal ''Error encoding JSON'' (Some err) w1
      | (None, w1) \<Rightarrow> (0, w1))"

definition outputKeysTable :: "'s platform \<Rightarrow> KeyListResponse \<Rightarrow> 's world \<Rightarrow> int \<times> 's world" where
  "outputKeysTable pf result w =
     (let header = [[''KEY ID'', ''CREATED'', ''ALGORITHM''], [''------'', ''-------'', ''---------'']];
          rows = map (\<lambda>key.
                   (let createdAt = time_Format pf ''2006-01-02 15:04'' (key_CreatedAt key);
                        algorithm = (if key_Algorithm key = [] then ''default'' else key_Algorithm key)
                    in [key_ID key, createdAt, algorithm])) (Keys result);
          none = (if length (Keys result) = 0 then [[''No keys found'', [], []]] else [])
      in (0, emit (Table (header @ rows @ none)) w))"

definition rule_line :: string where
  "rule_line = concat (replicate 50 [CHR 0xE2, CHR 0x94, CHR 0x81]) @ nl"

definition outputGeneratedKeyTable ::
  "'s platform \<Rightarrow> GenerateKeyCMDResponse \<Rightarrow> 's world \<Rightarrow> int \<times> 's world" where
  "outputGeneratedKeyTable pf key w =
     (let w1 = emit (Print ([CHR 0xE2, CHR 0x9C, CHR 0x93] @ '' New key generated successfully''
                       @ nl @ nl)) w;
          w2 = emit (Print (''Key ID:     '' @ gen_ID key @ nl)) w1;
          w3 = emit (Print (''Created:    '' @ time_Format pf RFC3339 (gen_CreatedAt key) @ nl)) w2;
          w4 = (if gen_Algorithm key \<noteq> []
                then emit (Print (''Algorithm:  '' @ gen_Algorithm key @ nl)) w3 else w3);
          w5 = (if gen_PublicKey key \<noteq> []
                then emit (Print rule_line)
                       (emit (Print (gen_PublicKey key))
                          (emit (Print rule_line) (emit (Print (nl @ ''Public Key:'' @ nl)) w4)))
                else w4);
          w6 = emit (Print (nl @ ''You can now use this key ID for signing:'' @ nl)) w5
      in (0, emit (Print (''  sign -key-id '' @ gen_ID key @ '' -sbom your-sbom.json'' @ nl)) w6))"

definition output_error :: string where
  "output_error = ''Error: output must be '' @ quote @ ''table'' @ quote @ '' or '' @ quote
                   @ ''json'' @ quote"

definition runListCommand :: "'s platform \<Rightarrow> cmdline \<Rightarrow> 's world \<Rightarrow> int \<times> 's world" where
  "runListCommand pf cl w =
     (let apiKey = flag_String cl ''api-key'' [];
          baseURL = flag_String cl ''base-url'' [];
          output = flag_String cl ''output'' ''table'';
          timeout = flag_Duration cl ''timeout'' (30 * Second);
          quiet = flag_Bool cl ''quiet'' False
      in if deref output \<noteq> ''table'' \<and> deref output \<noteq> ''json'' then log_Fatal output_error None w
         else
          (case keymgmt_createClient (os_Getenv pf) (deref apiKey) (deref baseURL) (deref timeout) of
             Inl err \<Rightarrow> log_Fatal ''Error creating client'' (Some err) w
           | Inr client \<Rightarrow>
              (let ctx = ctx_WithTimeout Background (deref timeout);
                   w1 = (if \<not> deref quiet
                         then emit (Progress (''Retrieving keys from SecureSBOM...'' @ nl)) w else w)
               in (case ListKeys pf client ctx w1 of
                    (Inl err, w2) \<Rightarrow> log_Fatal ''Error listing keys'' (Some err) w2
                  | (Inr result, w2) \<Rightarrow>
                      if deref output = ''json'' then outputJSON pf (EncKeyList result) w2
                      else outputKeysTable pf result w2))))"

definition runGenerateCommand :: "'s platform \<Rightarrow> cmdline \<Rightarrow> 's world \<Rightarrow> int \<times> 's world" where
  "runGenerateCommand pf cl w =
     (let apiKey = flag_String cl ''api-key'' [];
          baseURL = flag_String cl ''base-url'' [];
          output = flag_String cl ''output'' ''table'';
          savePublic = flag_String cl ''save-public'' [];
          timeout = flag_Duration cl ''timeout'' (30 * Second);
          quiet = flag_Bool cl ''quiet'' False
      in if deref output \<noteq> ''table'' \<and> deref output \<noteq> ''json'' then log_Fatal output_error None w
         else
          (case keymgmt_createClient (os_Getenv pf) (deref apiKey) (deref baseURL) (deref timeout) of
             Inl err \<Rightarrow> log_Fatal ''Error creating client'' (Some err) w
           | Inr client \<Rightarrow>
              (let ctx = ctx_WithTimeout Background (deref timeout);
                   w1 = (if \<not> deref quiet
                         then emit (Progress (''Generating new signing key...'' @ nl)) w else w)
               in (case GenerateKey pf client ctx w1 of
                    (Inl err, w2) \<Rightarrow> log_Fatal ''Error generating key'' (Some err) w2
                  | (Inr key, w2) \<Rightarrow>
                     (case (if deref savePublic \<noteq> [] then
                              (case WriteFile_os pf (deref savePublic) (gen_PublicKey key)
                                      perm_0644 w2 of
                                 (Some err, w3) \<Rightarrow> (Some err, w3)
                               | (None, w3) \<Rightarrow>
                                   (None, if \<not> deref quiet
                                          then emit (Progress (''Public key saved to: ''
                                                      @ deref savePublic @ nl)) w3
                                          else w3))
                            else (None, w2)) of
                        (Some err, w4) \<Rightarrow> log_Fatal ''Error saving public key'' (Some err) w4
                      | (None, w4) \<Rightarrow>
                          if deref output = ''json'' then outputJSON pf (EncGeneratedKey key) w4
                          else outputGeneratedKeyTable pf key w4)))))"

definition runPublicCommand :: "'s platform \<Rightarrow> cmdline \<Rightarrow> 's world \<Rightarrow> int \<times> 's world" where
  "runPublicCommand pf cl w =
     (let apiKey = flag_String cl ''api-key'' [];
          baseURL = flag_String cl ''base-url'' [];
          outputFile = flag_String cl ''output'' [];
          timeout = flag_Duration cl ''timeout'' (30 * Second);
          quiet = flag_Bool cl ''quiet'' False
      in if length (positional cl) < 1 then
           log_Fatal (''Error: key-id is required'' @ nl @ nl
                      @ ''Usage: keymgmt public <key-id> [options]'') None w
         else
          (let keyID = hd (positional cl)
           in (case keymgmt_createClient (os_Getenv pf) (deref apiKey) (deref baseURL)
                       (deref timeout) of
                 Inl err \<Rightarrow> log_Fatal ''Error creating client'' (Some err) w
               | Inr client \<Rightarrow>
                  (let ctx = ctx_WithTimeout Background (deref timeout);
                       w1 = (if \<not> deref quiet
                             then emit (Progress (''Retrieving public key for '' @ keyID @ ''...''
                                         @ nl)) w
                             else w)
                   in (case GetPublicKey pf client ctx keyID w1 of
                        (Inl err, w2) \<Rightarrow> log_Fatal ''Error getting public key'' (Some err) w2
                      | (Inr publicKey, w2) \<Rightarrow>
                          if deref outputFile = [] then (0, emit (Print publicKey) w2)
                          else
                            (case WriteFile_os pf (deref outputFile) publicKey perm_0644 w2 of
                               (Some err, w3) \<Rightarrow>
                                 log_Fatal ''Error writing public key to file'' (Some err) w3
                             | (None, w3) \<Rightarrow>
                                 if \<not> deref quiet
                                 then (0, emit (Progress (''Public key saved to: ''
                                             @ deref outputFile @ nl)) w3)
                                 else (0, w3)))))))"

text \<open>
  \<^verbatim>\<open>main\<close> of the keymgmt program. \<open>args\<close> is \<^verbatim>\<open>os.Args\<close>; \<open>cl\<close> is what the
  subcommand's flag set stores when it parses \<^verbatim>\<open>os.Args[2:]\<close>.
\<close>

definition keymgmt_main ::
  "'s platform \<Rightarrow> string list \<Rightarrow> cmdline \<Rightarrow> 's world \<Rightarrow> int \<times> 's world" where
  "keymgmt_main pf args cl w =
     (if length args < 2 then (1, emit Usage w)
      else
       (let command = args ! 1
        in if command = ''list'' then runListCommand pf cl w
           else if command = ''generate'' then runGenerateCommand pf cl w
           else if command = ''public'' then runPublicCommand pf cl w
           else if command = ''help'' \<or> command = ''-h'' \<or> command = ''--help''
             then (0, emit Usage w)
           else (1, emit Usage (emit (Progress (''Unknown command: '' @ command @ nl @ nl)) w))))"

subsection \<open>Observations on traces\<close>

text \<open>The requests sent, in order.\<close>

fun attempts :: "event list \<Rightarrow> request list" where
  "attempts [] = []"
| "attempts (Attempt r # evs) = r # attempts evs"
| "attempts (ev # evs) = attempts evs"

text \<open>Output of a result on standard output.\<close>

fun is_render :: "event \<Rightarrow> bool" where
  "is_render (Print t) = True"
| "is_render (Table rows) = True"
| "is_render (Encode v) = True"
| "is_render ev = False"

subsection \<open>A concrete platform\<close>

text \<open>
  A small service to run the programs on: the state counts the HTTP exchanges; \<open>fault i\<close>
  is the error of exchange \<open>i\<close>, if any; \<open>interrupt d\<close> tells whether the context ends during
  a wait of length \<open>d\<close>; \<open>verdict\<close> is what the service answers to a verification.
\<close>

definition demo_key :: GenerateKeyCMDResponse where
  "demo_key = \<lparr>gen_ID = ''k1'', gen_CreatedAt = 1, gen_Algorithm = ''ES256'',
                gen_PublicKey = ''PEM''\<rparr>"

definition demo_result :: "bool \<Rightarrow> VerifyResultCMDResponse" where
  "demo_result verdict =
     \<lparr>Valid = verdict, Message = ''checked'', Timestamp = 1, KeyID = ''k1'', Algorithm = []\<rparr>"

definition answer :: "(nat \<Rightarrow> error option) \<Rightarrow> 'a \<Rightarrow> nat \<Rightarrow> (error + 'a) \<times> nat" where
  "answer fault v s = (case fault s of None \<Rightarrow> (Inr v, Suc s) | Some e \<Rightarrow> (Inl e, Suc s))"

definition demo_platform ::
  "(nat \<Rightarrow> error option) \<Rightarrow> (real \<Rightarrow> ctx_err option) \<Rightarrow> bool \<Rightarrow> nat platform" where
  "demo_platform fault interrupt verdict =
     \<lparr>http_HealthCheck = (\<lambda>cfg ctx. answer fault ()),
      http_ListKeys = (\<lambda>cfg ctx. answer fault \<lparr>Keys = []\<rparr>),
      http_GenerateKey = (\<lambda>cfg ctx. answer fault demo_key),
      http_GetPublicKey = (\<lambda>cfg ctx keyID. answer fault ''PEM''),
      http_SignSBOM = (\<lambda>cfg ctx keyID sbom. answer fault (SignResult sbom)),
      http_VerifySBOM = (\<lambda>cfg ctx keyID sbom. answer fault (demo_result verdict)),
      http_VerifySPDXSBOM = (\<lambda>cfg ctx keyID sig sbom. answer fault (demo_result verdict)),
      ctx_wait = (\<lambda>ctx d s. (interrupt d, s)),
      os_Getenv = (\<lambda>name. if name = ''SECURE_SBOM_API_KEY'' then Some ''secret'' else None),
      LoadSBOMFromReader = (\<lambda>s. (Inr (SBOM ''doc''), s)),
      LoadSBOMFromFile = (\<lambda>path s. (Inr (SBOM ''doc''), s)),
      os_WriteFile = (\<lambda>name data perm s. (None, s)),
      stdout_Encode = (\<lambda>v s. (None, s)),
      json_MarshalIndent = (\<lambda>v. Inr ''{}''),
      time_Format = (\<lambda>layout t. ''T'')\<rparr>"

definition service_up :: "nat \<Rightarrow> error option" where
  "service_up i = None"

definition service_down :: "nat \<Rightarrow> error option" where
  "service_down i = Some (APIError 503 ''unavailable'')"

definition never_done :: "real \<Rightarrow> ctx_err option" where
  "never_done d = None"

definition no_flags :: cmdline where
  "no_flags = \<lparr>string_flags = (\<lambda>name. None), int_flags = (\<lambda>name. None),
                duration_flags = (\<lambda>name. None), bool_flags = (\<lambda>name. None),
                positional = []\<rparr>"

definition with_key_id :: cmdline where
  "with_key_id = no_flags\<lparr>string_flags := (\<lambda>name. if name = ''key-id'' then Some ''k1'' else None)\<rparr>"

definition save_public_flags :: cmdline where
  "save_public_flags =
     no_flags\<lparr>string_flags := (\<lambda>name. if name = ''save-public'' then Some ''out.pem'' else None)\<rparr>"



definition start_world :: "nat world" where
  "start_world = \<lparr>ext = 0, trace = []\<rparr>"

definition cfg0 :: Config where
  "cfg0 = \<lparr>APIKey = ''secret'', BaseURL = None, Timeout = None, UserAgent = None\<rparr>"

text \<open>The policy of sign and verify at the default \<^verbatim>\<open>-retries 3\<close>.\<close>

definition rc3 :: RetryConfig where
  "rc3 = \<lparr>MaxAttempts = 3, InitialWait = 1 * Second, MaxWait = 10 * Second, Multiplier = 2\<rparr>"

definition not_found :: "nat \<Rightarrow> error option" where
  "not_found i = Some (APIError 404 ''no such key'')"

definition deadline_in_long_wait :: "real \<Rightarrow> ctx_err option" where
  "deadline_in_long_wait d = (if 2000000000 \<le> d then Some DeadlineExceeded else None)"

text \<open>An environment that holds both variables the builder reads.\<close>

definition env_both :: "string \<Rightarrow> string option" where
  "env_both name =
     (if name = ''SECURE_SBOM_API_KEY'' then Some ''y''
      else if name = ''SECURE_SBOM_BASE_URL'' then Some ''http://e''
      else None)"

text \<open>
  A service that is up, over a file system: the external state is the files on disk, as
  pairs of name and content; writing a file replaces the file of that name.
\<close>

definition file_platform :: "(string \<times> string) list platform" where
  "file_platform =
     \<lparr>http_HealthCheck = (\<lambda>cfg ctx s. (Inr (), s)),
      http_ListKeys = (\<lambda>cfg ctx s. (Inr \<lparr>Keys = []\<rparr>, s)),
      http_GenerateKey = (\<lambda>cfg ctx s. (Inr demo_key, s)),
      http_GetPublicKey = (\<lambda>cfg ctx keyID s. (Inr ''PEM'', s)),
      http_SignSBOM = (\<lambda>cfg ctx keyID sbom s. (Inr (SignResult sbom), s)),
      http_VerifySBOM = (\<lambda>cfg ctx keyID sbom s. (Inr (demo_result True), s)),
      http_VerifySPDXSBOM = (\<lambda>cfg ctx keyID sig sbom s. (Inr (demo_result True), s)),
      ctx_wait = (\<lambda>ctx d s. (None, s)),
      os_Getenv = (\<lambda>name. if name = ''SECURE_SBOM_API_KEY'' then Some ''secret'' else None),
      LoadSBOMFromReader = (\<lambda>s. (Inr (SBOM ''doc''), s)),
      LoadSBOMFromFile = (\<lambda>path s. (Inr (SBOM ''doc''), s)),
      os_WriteFile = (\<lambda>name data perm s. (None, (name, data) # filter (\<lambda>f. fst f \<noteq> name) s)),
      stdout_Encode = (\<lambda>v s. (None, s)),
      json_MarshalIndent = (\<lambda>v. Inr ''{}''),
      time_Format = (\<lambda>layout t. ''T'')\<rparr>"

definition empty_disk :: "(string \<times> string) list world" where
  "empty_disk = \<lparr>ext = [], trace = []\<rparr>"

section \<open>The retrying client\<close>

subsection \<open>One step of the decorator\<close>

lemma RetriesExhausted_neq: "RetriesExhausted e \<noteq> e"
  by (induction e) auto

lemma retry_from_last:
  "MaxAttempts rc \<le> n \<Longrightarrow>
   retry_from pf rc ctx op n w =
     (case op w of
        (Inl e, w1) \<Rightarrow> (if Temporary e then Inl (RetriesExhausted e) else Inl e, w1)
      | (Inr v, w1) \<Rightarrow> (Inr v, w1))"
  by (subst retry_from.simps) (auto split: prod.splits sum.splits)

lemma retry_from_permanent:
  "fst (op w) = Inl e \<Longrightarrow> \<not> Temporary e \<Longrightarrow> retry_from pf rc ctx op n w = op w"
  by (subst retry_from.simps) (auto split: prod.splits sum.splits)

lemma retry_from_success:
  "fst (op w) = Inr v \<Longrightarrow> retry_from pf rc ctx op n w = op w"
  by (subst retry_from.simps) (auto split: prod.splits sum.splits)

lemma retry_from_interrupted:
  "op w = (Inl e, w1) \<Longrightarrow> Temporary e \<Longrightarrow> n < MaxAttempts rc \<Longrightarrow>
   ctx_wait pf ctx (wait_n rc n) (ext w1) = (Some ce, s2) \<Longrightarrow>
   retry_from pf rc ctx op n w =
     (Inl (ContextError ce), w1\<lparr>ext := s2, trace := trace w1 @ [Interrupted (wait_n rc n) ce]\<rparr>)"
  by (subst retry_from.simps) (simp add: backoff_def)

lemma retry_from_waited:
  "op w = (Inl e, w1) \<Longrightarrow> Temporary e \<Longrightarrow> n < MaxAttempts rc \<Longrightarrow>
   ctx_wait pf ctx (wait_n rc n) (ext w1) = (None, s2) \<Longrightarrow>
   retry_from pf rc ctx op n w =
     retry_from pf rc ctx op (n + 1) (w1\<lparr>ext := s2, trace := trace w1 @ [Waited (wait_n rc n)]\<rparr>)"
  by (subst retry_from.simps) (simp add: backoff_def)

lemma wait_n_le_MaxWait: "wait_n rc k \<le> real_of_int (MaxWait rc)"
  by (simp add: wait_n_def)

lemma wait_n_rc3: "wait_n rc3 1 = 1000000000" "wait_n rc3 2 = 2000000000"
  by (simp_all add: wait_n_def rc3_def Second_def)

lemma upto_rc3: "[1..MaxAttempts rc3 - 1] = [1, 2]"
  by (simp add: rc3_def upto.simps)

subsection \<open>Exhausted retries\<close>

lemma retry_from_exhausted:
  assumes tmp: "\<forall>w. \<exists>e. fst (op w) = Inl e \<and> Temporary e"
    and log: "\<forall>w. trace (snd (op w)) = trace w @ [Attempt req]"
    and nowait: "\<forall>d s. fst (ctx_wait pf ctx d s) = None"
  shows "k \<le> MaxAttempts rc \<Longrightarrow>
     \<exists>e w'. Temporary e \<and> op w' = (Inl e, snd (retry_from pf rc ctx op k w))
        \<and> fst (retry_from pf rc ctx op k w) = Inl (RetriesExhausted e)
        \<and> trace (snd (retry_from pf rc ctx op k w)) =
            trace w @ concat (map (\<lambda>j. [Attempt req, Waited (wait_n rc j)]) [k..MaxAttempts rc - 1])
              @ [Attempt req]"
proof (induction "nat (MaxAttempts rc - k)" arbitrary: k w)
  case 0
  obtain e where e: "fst (op w) = Inl e" "Temporary e" using tmp by blast
  obtain w1 where w1: "op w = (Inl e, w1)" using e by (cases "op w") auto
  have tr1: "trace w1 = trace w @ [Attempt req]" using log[rule_format, of w] w1 by simp
  have k: "k = MaxAttempts rc" using 0 by simp
  have r: "retry_from pf rc ctx op k w = (Inl (RetriesExhausted e), w1)"
    by (subst retry_from.simps) (simp add: w1 e k)
  show ?case unfolding r using w1 e tr1 k by auto
next
  case (Suc m)
  obtain e where e: "fst (op w) = Inl e" "Temporary e" using tmp by blast
  obtain w1 where w1: "op w = (Inl e, w1)" using e by (cases "op w") auto
  have tr1: "trace w1 = trace w @ [Attempt req]" using log[rule_format, of w] w1 by simp
  have lt: "k < MaxAttempts rc" using Suc by simp
  obtain s2 where s2: "ctx_wait pf ctx (wait_n rc k) (ext w1) = (None, s2)"
    using nowait[rule_format, of "wait_n rc k" "ext w1"]
    by (cases "ctx_wait pf ctx (wait_n rc k) (ext w1)") auto
  let ?w2 = "w1\<lparr>ext := s2, trace := trace w1 @ [Waited (wait_n rc k)]\<rparr>"
  have b: "backoff pf ctx (wait_n rc k) w1 = (None, ?w2)" by (simp add: backoff_def s2)
  have step: "retry_from pf rc ctx op k w = retry_from pf rc ctx op (k + 1) ?w2"
    by (subst retry_from.simps) (simp add: w1 e lt b)
  have m: "m = nat (MaxAttempts rc - (k + 1))" using Suc.hyps(2) by simp
  have le: "k + 1 \<le> MaxAttempts rc" using lt by simp
  note ih = Suc.hyps(1)[OF m le, of ?w2]
  have up: "[k..MaxAttempts rc - 1] = k # [k + 1..MaxAttempts rc - 1]"
    using lt by (simp add: upto_rec1)
  show ?case using ih unfolding step up by (simp add: tr1)
qed

lemma attempts_count:
  "length (filter (\<lambda>ev. ev = Attempt req)
     (concat (map (\<lambda>j. [Attempt req, Waited (wait_n rc j)]) js) @ [Attempt req])) = Suc (length js)"
  by (induction js) auto

text \<open>
  C2. Let the wrapped client's method fail with a temporary error on every invocation, each
  invocation being one attempt, and let no wait be cut short by the context. For a policy
  with \<open>MaxAttempts = n \<ge> 1\<close> the decorator then invokes the method exactly \<open>n\<close> times,
  waits \<open>wait_n rc k = min (InitialWait * Multiplier ^ (k - 1)) MaxWait\<close> between attempt
  \<open>k\<close> and attempt \<open>k + 1\<close>, and returns the error of the last invocation wrapped as
  \<open>RetriesExhausted\<close>, which differs from the error itself. No wait exceeds \<open>MaxWait\<close>.
\<close>

theorem retry_exhausts_after_MaxAttempts:
  assumes "1 \<le> MaxAttempts rc"
    and "\<forall>w. \<exists>e. fst (op w) = Inl e \<and> Temporary e"
    and "\<forall>w. trace (snd (op w)) = trace w @ [Attempt req]"
    and "\<forall>d s. fst (ctx_wait pf ctx d s) = None"
  shows "\<exists>e w' evs. Temporary e \<and> op w' = (Inl e, snd (retry pf rc ctx op w))
        \<and> fst (retry pf rc ctx op w) = Inl (RetriesExhausted e)
        \<and> RetriesExhausted e \<noteq> e
        \<and> trace (snd (retry pf rc ctx op w)) = trace w @ evs
        \<and> evs = concat (map (\<lambda>k. [Attempt req, Waited (wait_n rc k)]) [1..MaxAttempts rc - 1])
                  @ [Attempt req]
        \<and> length (filter (\<lambda>ev. ev = Attempt req) evs) = nat (MaxAttempts rc)
        \<and> (\<forall>k. wait_n rc k \<le> real_of_int (MaxWait rc))"
proof -
  from retry_from_exhausted[OF assms(2,3,4) assms(1), of w]
  obtain e w' where h: "Temporary e" "op w' = (Inl e, snd (retry_from pf rc ctx op 1 w))"
    "fst (retry_from pf rc ctx op 1 w) = Inl (RetriesExhausted e)"
    "trace (snd (retry_from pf rc ctx op 1 w)) =
       trace w @ concat (map (\<lambda>j. [Attempt req, Waited (wait_n rc j)]) [1..MaxAttempts rc - 1])
         @ [Attempt req]"
    by blast
  let ?evs = "concat (map (\<lambda>k. [Attempt req, Waited (wait_n rc k)]) [1..MaxAttempts rc - 1])
                  @ [Attempt req]"
  have n: "length (filter (\<lambda>ev. ev = Attempt req) ?evs) = nat (MaxAttempts rc)"
    using assms(1) by (simp only: attempts_count length_upto)
  have "Temporary e \<and> op w' = (Inl e, snd (retry pf rc ctx op w))
        \<and> fst (retry pf rc ctx op w) = Inl (RetriesExhausted e)
        \<and> RetriesExhausted e \<noteq> e
        \<and> trace (snd (retry pf rc ctx op w)) = trace w @ ?evs
        \<and> ?evs = ?evs
        \<and> length (filter (\<lambda>ev. ev = Attempt req) ?evs) = nat (MaxAttempts rc)
        \<and> (\<forall>k. wait_n rc k \<le> real_of_int (MaxWait rc))"
    using h n by (simp add: retry_def RetriesExhausted_neq wait_n_le_MaxWait)
  then show ?thesis by blast
qed

theorem retry_exhausts_after_MaxAttempts_witness:
  "1 \<le> MaxAttempts rc3
   \<and> (\<forall>w. \<exists>e. fst (HealthCheck (demo_platform service_down never_done True) (BaseClient cfg0) Background w) = Inl e
          \<and> Temporary e)
   \<and> (\<forall>w. trace (snd (HealthCheck (demo_platform service_down never_done True) (BaseClient cfg0) Background w))
          = trace w @ [Attempt ReqHealthCheck])
   \<and> (\<forall>d s. fst (ctx_wait (demo_platform service_down never_done True) Background d s) = None)
   \<and> fst (HealthCheck (demo_platform service_down never_done True)
            (RetryingClient (BaseClient cfg0) rc3) Background start_world)
       = Inl (RetriesExhausted (APIError 503 ''unavailable''))
   \<and> trace (snd (HealthCheck (demo_platform service_down never_done True)
            (RetryingClient (BaseClient cfg0) rc3) Background start_world))
       = [Attempt ReqHealthCheck, Waited 1000000000, Attempt ReqHealthCheck, Waited 2000000000,
          Attempt ReqHealthCheck]"
proof -
  let ?pf = "demo_platform service_down never_done True"
  let ?op = "HealthCheck ?pf (BaseClient cfg0) Background"
  have a: "1 \<le> MaxAttempts rc3" by (simp add: rc3_def)
  have opw: "\<And>w. ?op w = (Inl (APIError 503 ''unavailable''),
       w\<lparr>ext := Suc (ext w), trace := trace w @ [Attempt ReqHealthCheck]\<rparr>)"
    by (simp add: attempt_def demo_platform_def answer_def service_down_def)
  have b: "\<forall>w. \<exists>e. fst (?op w) = Inl e \<and> Temporary e" unfolding opw by simp
  have c: "\<forall>w. trace (snd (?op w)) = trace w @ [Attempt ReqHealthCheck]" unfolding opw by simp
  have d: "\<forall>d s. fst (ctx_wait ?pf Background d s) = None"
    by (simp add: demo_platform_def never_done_def)
  from retry_exhausts_after_MaxAttempts[OF a b c d, of start_world]
  obtain e w' where h: "?op w' = (Inl e, snd (retry ?pf rc3 Background ?op start_world))"
    "fst (retry ?pf rc3 Background ?op start_world) = Inl (RetriesExhausted e)"
    "trace (snd (retry ?pf rc3 Background ?op start_world)) =
       trace start_world @ concat (map (\<lambda>k. [Attempt ReqHealthCheck, Waited (wait_n rc3 k)])
           [1..MaxAttempts rc3 - 1]) @ [Attempt ReqHealthCheck]"
    by blast
  have e: "e = APIError 503 ''unavailable''" using h(1) unfolding opw by simp
  have t: "trace (snd (retry ?pf rc3 Background ?op start_world)) =
      [Attempt ReqHealthCheck, Waited 1000000000, Attempt ReqHealthCheck, Waited 2000000000,
          Attempt ReqHealthCheck]"
    unfolding h(3) upto_rc3 by (simp add: wait_n_rc3 start_world_def)
  show ?thesis using a b c d h(2) e t unfolding HealthCheck.simps by simp
qed

subsection \<open>Permanent errors\<close>

text \<open>
  C5. At every attempt \<open>n\<close> and for every policy, if the invocation of the wrapped method
  fails with an error classified permanent, the decorator returns exactly what that
  invocation returned: that error, and the world as the invocation left it, with no wait
  and no further attempt. A 4xx API error other than 429 and a configuration error are
  classified permanent.
\<close>

theorem permanent_error_not_retried:
  assumes "fst (op w) = Inl e" and "\<not> Temporary e"
  shows "retry_from pf rc ctx op n w = op w
     \<and> retry pf rc ctx op w = op w
     \<and> (\<forall>code msg. 400 \<le> code \<and> code \<le> 499 \<and> code \<noteq> 429 \<longrightarrow> \<not> Temporary (APIError code msg))
     \<and> (\<forall>msg. \<not> Temporary (ConfigurationError msg))"
  using assms by (simp add: retry_def retry_from_permanent)

theorem permanent_error_not_retried_witness:
  "fst (GetPublicKey (demo_platform not_found never_done True) (BaseClient cfg0) Background ''k9''
          start_world) = Inl (APIError 404 ''no such key'')
   \<and> \<not> Temporary (APIError 404 ''no such key'')
   \<and> GetPublicKey (demo_platform not_found never_done True)
        (RetryingClient (BaseClient cfg0) rc3) Background ''k9'' start_world
     = (Inl (APIError 404 ''no such key''), \<lparr>ext = 1, trace = [Attempt (ReqGetPublicKey ''k9'')]\<rparr>)"
proof -
  let ?pf = "demo_platform not_found never_done True"
  let ?op = "GetPublicKey ?pf (BaseClient cfg0) Background ''k9''"
  have opw: "?op start_world = (Inl (APIError 404 ''no such key''),
       \<lparr>ext = 1, trace = [Attempt (ReqGetPublicKey ''k9'')]\<rparr>)"
    by (simp add: attempt_def demo_platform_def answer_def not_found_def start_world_def)
  have a: "fst (?op start_world) = Inl (APIError 404 ''no such key'')" unfolding opw by simp
  have b: "\<not> Temporary (APIError 404 ''no such key'')" by simp
  show ?thesis
    using a b permanent_error_not_retried[where op = ?op and w = start_world and pf = ?pf
        and rc = rc3 and ctx = Background and n = 1, OF a b]
    unfolding opw by (simp add: retry_def)
qed

subsection \<open>Cancellation during a wait\<close>

lemma retry_from_interrupted_last:
  assumes log: "\<forall>w. trace (snd (op w)) = trace w @ [Attempt req]"
  shows "\<exists>evs. trace (snd (retry_from pf rc ctx op n w)) = trace w @ evs
      \<and> (\<forall>pre d ce post. evs = pre @ Interrupted d ce # post
            \<longrightarrow> post = [] \<and> fst (retry_from pf rc ctx op n w) = Inl (ContextError ce))"
proof (induction "nat (MaxAttempts rc - n)" arbitrary: n w)
  case 0
  then have le: "MaxAttempts rc \<le> n" by simp
  obtain r w1 where w1: "op w = (r, w1)" by (cases "op w")
  have tr1: "trace w1 = trace w @ [Attempt req]" using log[rule_format, of w] w1 by simp
  have "trace (snd (retry_from pf rc ctx op n w)) = trace w @ [Attempt req]"
    using w1 tr1 by (simp add: retry_from_last[OF le] split: sum.splits)
  then show ?case by (auto simp: Cons_eq_append_conv)
next
  case (Suc m)
  obtain r w1 where w1: "op w = (r, w1)" by (cases "op w")
  have tr1: "trace w1 = trace w @ [Attempt req]" using log[rule_format, of w] w1 by simp
  have lt: "n < MaxAttempts rc" using Suc by simp
  consider (stop) "retry_from pf rc ctx op n w = op w"
    | (cut) e ce s2 where "r = Inl e" "Temporary e"
        "ctx_wait pf ctx (wait_n rc n) (ext w1) = (Some ce, s2)"
    | (go) e s2 where "r = Inl e" "Temporary e"
        "ctx_wait pf ctx (wait_n rc n) (ext w1) = (None, s2)"
  proof (cases r)
    case (Inr v)
    then show ?thesis using that(1) retry_from_success[of op w v] w1 by simp
  next
    case (Inl e)
    show ?thesis
    proof (cases "Temporary e")
      case False
      then show ?thesis using that(1) retry_from_permanent[of op w e] w1 Inl by simp
    next
      case True
      obtain x s2 where x: "ctx_wait pf ctx (wait_n rc n) (ext w1) = (x, s2)"
        by (cases "ctx_wait pf ctx (wait_n rc n) (ext w1)")
      show ?thesis using that(2,3) Inl True x by (cases x) auto
    qed
  qed
  then show ?case
  proof cases
    case stop
    then have "trace (snd (retry_from pf rc ctx op n w)) = trace w @ [Attempt req]"
      using w1 tr1 by simp
    then show ?thesis by (auto simp: Cons_eq_append_conv)
  next
    case cut
    have r: "retry_from pf rc ctx op n w =
        (Inl (ContextError ce), w1\<lparr>ext := s2, trace := trace w1 @ [Interrupted (wait_n rc n) ce]\<rparr>)"
      using retry_from_interrupted[OF _ cut(2) lt cut(3)] w1 cut(1) by simp
    have "trace (snd (retry_from pf rc ctx op n w)) =
        trace w @ [Attempt req, Interrupted (wait_n rc n) ce]"
      unfolding r using tr1 by simp
    moreover have "\<forall>pre d ce' post.
        [Attempt req, Interrupted (wait_n rc n) ce] = pre @ Interrupted d ce' # post
          \<longrightarrow> post = [] \<and> fst (retry_from pf rc ctx op n w) = Inl (ContextError ce')"
      unfolding r by (auto simp: Cons_eq_append_conv)
    ultimately show ?thesis by blast
  next
    case go
    let ?w2 = "w1\<lparr>ext := s2, trace := trace w1 @ [Waited (wait_n rc n)]\<rparr>"
    have r: "retry_from pf rc ctx op n w = retry_from pf rc ctx op (n + 1) ?w2"
      using retry_from_waited[OF _ go(2) lt go(3)] w1 go(1) by simp
    have m: "m = nat (MaxAttempts rc - (n + 1))" using Suc.hyps(2) by simp
    from Suc.hyps(1)[OF m, of ?w2]
    obtain evs where evs: "trace (snd (retry_from pf rc ctx op (n + 1) ?w2)) = trace ?w2 @ evs"
      "\<forall>pre d ce post. evs = pre @ Interrupted d ce # post
            \<longrightarrow> post = [] \<and> fst (retry_from pf rc ctx op (n + 1) ?w2) = Inl (ContextError ce)"
      by blast
    have "trace (snd (retry_from pf rc ctx op n w)) =
        trace w @ (Attempt req # Waited (wait_n rc n) # evs)"
      unfolding r evs(1) using tr1 by simp
    moreover have "\<forall>pre d ce post.
        Attempt req # Waited (wait_n rc n) # evs = pre @ Interrupted d ce # post
          \<longrightarrow> post = [] \<and> fst (retry_from pf rc ctx op n w) = Inl (ContextError ce)"
      unfolding r using evs(2) by (auto simp: Cons_eq_append_conv)
    ultimately show ?thesis by blast
  qed
qed

text \<open>
  C6. If the context ends while the decorator waits after a failed attempt, the decorator
  returns the context's error at once, and the wait is recorded as interrupted. In every
  run over a method that makes one attempt per invocation, an interrupted wait is the last
  event of the run: no attempt is dispatched after it, and the result is the context's
  error.
\<close>

theorem cancelled_wait_stops_retrying:
  assumes "\<forall>w. trace (snd (op w)) = trace w @ [Attempt req]"
  shows "(\<forall>w0 e w1 n ce s2.
            op w0 = (Inl e, w1) \<and> Temporary e \<and> n < MaxAttempts rc
            \<and> ctx_wait pf ctx (wait_n rc n) (ext w1) = (Some ce, s2)
          \<longrightarrow> retry_from pf rc ctx op n w0 =
                (Inl (ContextError ce),
                 w1\<lparr>ext := s2, trace := trace w1 @ [Interrupted (wait_n rc n) ce]\<rparr>))
     \<and> (\<exists>evs. trace (snd (retry pf rc ctx op w)) = trace w @ evs
           \<and> (\<forall>pre d ce post. evs = pre @ Interrupted d ce # post
                 \<longrightarrow> post = [] \<and> fst (retry pf rc ctx op w) = Inl (ContextError ce)))"
  using retry_from_interrupted_last[OF assms, of pf rc ctx 1 w]
  by (auto simp: retry_def retry_from_interrupted)

theorem cancelled_wait_stops_retrying_witness:
  "(\<forall>w. trace (snd (HealthCheck (demo_platform service_down deadline_in_long_wait True)
                      (BaseClient cfg0) Background w)) = trace w @ [Attempt ReqHealthCheck])
   \<and> HealthCheck (demo_platform service_down deadline_in_long_wait True)
        (RetryingClient (BaseClient cfg0) rc3) Background start_world
     = (Inl (ContextError DeadlineExceeded),
        \<lparr>ext = 2, trace = [Attempt ReqHealthCheck, Waited 1000000000, Attempt ReqHealthCheck,
                           Interrupted 2000000000 DeadlineExceeded]\<rparr>)"
proof -
  let ?pf = "demo_platform service_down deadline_in_long_wait True"
  let ?op = "HealthCheck ?pf (BaseClient cfg0) Background"
  let ?e = "APIError 503 ''unavailable''"
  have opw: "\<And>w. ?op w = (Inl ?e, w\<lparr>ext := Suc (ext w), trace := trace w @ [Attempt ReqHealthCheck]\<rparr>)"
    by (simp add: attempt_def demo_platform_def answer_def service_down_def)
  have a: "\<forall>w. trace (snd (?op w)) = trace w @ [Attempt ReqHealthCheck]" unfolding opw by simp
  have lt: "1 < MaxAttempts rc3" "2 < MaxAttempts rc3" by (simp_all add: rc3_def)
  let ?w1 = "\<lparr>ext = 1, trace = [Attempt ReqHealthCheck]\<rparr> :: nat world"
  let ?w2 = "\<lparr>ext = 1, trace = [Attempt ReqHealthCheck, Waited 1000000000]\<rparr> :: nat world"
  let ?w3 = "\<lparr>ext = 2, trace = [Attempt ReqHealthCheck, Waited 1000000000, Attempt ReqHealthCheck]\<rparr>
              :: nat world"
  have s1: "retry_from ?pf rc3 Background ?op 1 start_world = retry_from ?pf rc3 Background ?op (1 + 1) ?w2"
    using retry_from_waited[where op = ?op and w = start_world and e = ?e and ?w1.0 = ?w1
        and n = 1 and rc = rc3 and pf = ?pf and ctx = Background and ?s2.0 = 1]
    unfolding opw
    by (simp add: start_world_def lt wait_n_rc3 demo_platform_def deadline_in_long_wait_def)
  have s2: "retry_from ?pf rc3 Background ?op 2 ?w2 =
      (Inl (ContextError DeadlineExceeded),
       ?w3\<lparr>ext := 2, trace := trace ?w3 @ [Interrupted (wait_n rc3 2) DeadlineExceeded]\<rparr>)"
    using cancelled_wait_stops_retrying[OF a, THEN conjunct1, rule_format,
        where ?w0.0 = ?w2 and e = ?e and ?w1.0 = ?w3 and n = 2 and rc = rc3 and pf = ?pf
          and ctx = Background and ce = DeadlineExceeded and ?s2.0 = 2]
    unfolding opw
    by (simp add: lt wait_n_rc3 demo_platform_def deadline_in_long_wait_def)
  show ?thesis using a s1 s2 unfolding HealthCheck.simps retry_def by (simp add: wait_n_rc3)
qed

section \<open>The configuration builder\<close>

lemma explicit_APIKey_kept:
  "b_APIKey b = Explicit x \<Longrightarrow> \<forall>k. CallWithAPIKey k \<notin> set post \<Longrightarrow>
   b_APIKey (foldl (apply_call getenv) b post) = Explicit x"
proof (induction post arbitrary: b)
  case Nil
  then show ?case by simp
next
  case (Cons c post)
  have "b_APIKey (apply_call getenv b c) = Explicit x"
    using Cons.prems
    by (cases c) (auto simp: WithBaseURL_def WithTimeout_def WithUserAgent_def FromEnv_def)
  then show ?case using Cons by simp
qed

lemma explicit_BaseURL_kept:
  "b_BaseURL b = Explicit x \<Longrightarrow> \<forall>u. CallWithBaseURL u \<notin> set post \<Longrightarrow>
   b_BaseURL (foldl (apply_call getenv) b post) = Explicit x"
proof (induction post arbitrary: b)
  case Nil
  then show ?case by simp
next
  case (Cons c post)
  have "b_BaseURL (apply_call getenv b c) = Explicit x"
    using Cons.prems
    by (cases c) (auto simp: WithAPIKey_def WithTimeout_def WithUserAgent_def FromEnv_def)
  then show ?case using Cons by simp
qed

lemma explicit_Timeout_kept:
  "b_Timeout b = Explicit x \<Longrightarrow> \<forall>d. CallWithTimeout d \<notin> set post \<Longrightarrow>
   b_Timeout (foldl (apply_call getenv) b post) = Explicit x"
proof (induction post arbitrary: b)
  case Nil
  then show ?case by simp
next
  case (Cons c post)
  have "b_Timeout (apply_call getenv b c) = Explicit x"
    using Cons.prems
    by (cases c) (auto simp: WithAPIKey_def WithBaseURL_def WithUserAgent_def FromEnv_def)
  then show ?case using Cons by simp
qed

lemma explicit_UserAgent_kept:
  "b_UserAgent b = Explicit x \<Longrightarrow> \<forall>a. CallWithUserAgent a \<notin> set post \<Longrightarrow>
   b_UserAgent (foldl (apply_call getenv) b post) = Explicit x"
proof (induction post arbitrary: b)
  case Nil
  then show ?case by simp
next
  case (Cons c post)
  have "b_UserAgent (apply_call getenv b c) = Explicit x"
    using Cons.prems
    by (cases c) (auto simp: WithAPIKey_def WithBaseURL_def WithTimeout_def FromEnv_def)
  then show ?case using Cons by simp
qed

lemma BuildClient_fields:
  "BuildClient b = Inr (BaseClient cfg) \<Longrightarrow>
   effective (b_APIKey b) = Some (APIKey cfg) \<and> BaseURL cfg = effective (b_BaseURL b)
   \<and> Timeout cfg = effective (b_Timeout b) \<and> UserAgent cfg = effective (b_UserAgent b)"
  by (auto simp: BuildClient_def split: option.splits if_splits)

text \<open>
  C7. In every sequence of builder calls, a field set by an explicit setter keeps its
  explicit value: for each of the four fields (API key, base URL, timeout, user agent), the
  value given by the last explicit call for that field is the field's value, whatever calls
  come before it and whatever calls for other fields come after it, \<open>FromEnv\<close>
  included and whatever the environment holds, and it is the value a client built from the
  builder is bound to. In particular \<open>FromEnv\<close> called right after \<open>WithAPIKey x\<close> or
  \<open>WithBaseURL u\<close> leaves \<open>x\<close> and \<open>u\<close> in effect, and it never touches the timeout or
  the user agent. A field that is not explicitly set is filled by \<open>FromEnv\<close> from its
  environment variable, when that is set.
\<close>

theorem explicit_setting_wins:
  "((\<forall>k. CallWithAPIKey k \<notin> set post) \<longrightarrow>
       b_APIKey (apply_calls getenv (pre @ CallWithAPIKey x # post) b) = Explicit x
     \<and> effective (b_APIKey (apply_calls getenv (pre @ CallWithAPIKey x # post) b)) = Some x
     \<and> (x \<noteq> [] \<longrightarrow> (\<exists>cfg. BuildClient (apply_calls getenv (pre @ CallWithAPIKey x # post) b)
                              = Inr (BaseClient cfg) \<and> APIKey cfg = x)))
   \<and> ((\<forall>k. CallWithBaseURL k \<notin> set post) \<longrightarrow>
       b_BaseURL (apply_calls getenv (pre @ CallWithBaseURL u # post) b) = Explicit u
     \<and> (\<forall>cfg. BuildClient (apply_calls getenv (pre @ CallWithBaseURL u # post) b)
                = Inr (BaseClient cfg) \<longrightarrow> BaseURL cfg = Some u))
   \<and> ((\<forall>k. CallWithTimeout k \<notin> set post) \<longrightarrow>
       b_Timeout (apply_calls getenv (pre @ CallWithTimeout d # post) b) = Explicit d
     \<and> (\<forall>cfg. BuildClient (apply_calls getenv (pre @ CallWithTimeout d # post) b)
                = Inr (BaseClient cfg) \<longrightarrow> Timeout cfg = Some d))
   \<and> ((\<forall>k. CallWithUserAgent k \<notin> set post) \<longrightarrow>
       b_UserAgent (apply_calls getenv (pre @ CallWithUserAgent a # post) b) = Explicit a
     \<and> (\<forall>cfg. BuildClient (apply_calls getenv (pre @ CallWithUserAgent a # post) b)
                = Inr (BaseClient cfg) \<longrightarrow> UserAgent cfg = Some a))
   \<and> effective (b_APIKey (FromEnv getenv (WithAPIKey x b))) = Some x
   \<and> effective (b_BaseURL (FromEnv getenv (WithBaseURL u b))) = Some u
   \<and> b_Timeout (FromEnv getenv b) = b_Timeout b
   \<and> b_UserAgent (FromEnv getenv b) = b_UserAgent b
   \<and> ((\<forall>v. b_APIKey b \<noteq> Explicit v) \<longrightarrow>
        (\<forall>y. getenv ''SECURE_SBOM_API_KEY'' = Some y
           \<longrightarrow> effective (b_APIKey (FromEnv getenv b)) = Some y))
   \<and> ((\<forall>v. b_BaseURL b \<noteq> Explicit v) \<longrightarrow>
        (\<forall>e. getenv ''SECURE_SBOM_BASE_URL'' = Some e
           \<longrightarrow> effective (b_BaseURL (FromEnv getenv b)) = Some e))"
proof -
  have k: "b_APIKey (apply_calls getenv (pre @ CallWithAPIKey x # post) b) = Explicit x"
    if "\<forall>k. CallWithAPIKey k \<notin> set post"
    unfolding apply_calls_def using that by (simp add: explicit_APIKey_kept WithAPIKey_def)
  have u: "b_BaseURL (apply_calls getenv (pre @ CallWithBaseURL u # post) b) = Explicit u"
    if "\<forall>k. CallWithBaseURL k \<notin> set post"
    unfolding apply_calls_def using that by (simp add: explicit_BaseURL_kept WithBaseURL_def)
  have d: "b_Timeout (apply_calls getenv (pre @ CallWithTimeout d # post) b) = Explicit d"
    if "\<forall>k. CallWithTimeout k \<notin> set post"
    unfolding apply_calls_def using that by (simp add: explicit_Timeout_kept WithTimeout_def)
  have a: "b_UserAgent (apply_calls getenv (pre @ CallWithUserAgent a # post) b) = Explicit a"
    if "\<forall>k. CallWithUserAgent k \<notin> set post"
    unfolding apply_calls_def using that by (simp add: explicit_UserAgent_kept WithUserAgent_def)
  have K: "(\<forall>k. CallWithAPIKey k \<notin> set post) \<longrightarrow>
       b_APIKey (apply_calls getenv (pre @ CallWithAPIKey x # post) b) = Explicit x
     \<and> effective (b_APIKey (apply_calls getenv (pre @ CallWithAPIKey x # post) b)) = Some x
     \<and> (x \<noteq> [] \<longrightarrow> (\<exists>cfg. BuildClient (apply_calls getenv (pre @ CallWithAPIKey x # post) b)
                              = Inr (BaseClient cfg) \<and> APIKey cfg = x))"
    using k by (simp add: BuildClient_def)
  have U: "(\<forall>k. CallWithBaseURL k \<notin> set post) \<longrightarrow>
       b_BaseURL (apply_calls getenv (pre @ CallWithBaseURL u # post) b) = Explicit u
     \<and> (\<forall>cfg. BuildClient (apply_calls getenv (pre @ CallWithBaseURL u # post) b)
                = Inr (BaseClient cfg) \<longrightarrow> BaseURL cfg = Some u)"
    using u by (auto dest: BuildClient_fields)
  have D: "(\<forall>k. CallWithTimeout k \<notin> set post) \<longrightarrow>
       b_Timeout (apply_calls getenv (pre @ CallWithTimeout d # post) b) = Explicit d
     \<and> (\<forall>cfg. BuildClient (apply_calls getenv (pre @ CallWithTimeout d # post) b)
                = Inr (BaseClient cfg) \<longrightarrow> Timeout cfg = Some d)"
    using d by (auto dest: BuildClient_fields)
  have A: "(\<forall>k. CallWithUserAgent k \<notin> set post) \<longrightarrow>
       b_UserAgent (apply_calls getenv (pre @ CallWithUserAgent a # post) b) = Explicit a
     \<and> (\<forall>cfg. BuildClient (apply_calls getenv (pre @ CallWithUserAgent a # post) b)
                = Inr (BaseClient cfg) \<longrightarrow> UserAgent cfg = Some a)"
    using a by (auto dest: BuildClient_fields)
  have E: "effective (b_APIKey (FromEnv getenv (WithAPIKey x b))) = Some x
   \<and> effective (b_BaseURL (FromEnv getenv (WithBaseURL u b))) = Some u
   \<and> b_Timeout (FromEnv getenv b) = b_Timeout b
   \<and> b_UserAgent (FromEnv getenv b) = b_UserAgent b"
    by (simp add: FromEnv_def WithAPIKey_def WithBaseURL_def)
  have F: "(\<forall>v. b_APIKey b \<noteq> Explicit v) \<longrightarrow>
        (\<forall>y. getenv ''SECURE_SBOM_API_KEY'' = Some y
           \<longrightarrow> effective (b_APIKey (FromEnv getenv b)) = Some y)"
    by (cases "b_APIKey b") (auto simp: FromEnv_def)
  have G: "(\<forall>v. b_BaseURL b \<noteq> Explicit v) \<longrightarrow>
        (\<forall>e. getenv ''SECURE_SBOM_BASE_URL'' = Some e
           \<longrightarrow> effective (b_BaseURL (FromEnv getenv b)) = Some e)"
    by (cases "b_BaseURL b") (auto simp: FromEnv_def)
  from K U D A E F G show ?thesis by blast
qed

theorem explicit_setting_wins_witness:
  "(\<forall>k. CallWithAPIKey k \<notin> set [CallFromEnv])
   \<and> (\<forall>k. CallWithBaseURL k \<notin> set [CallFromEnv])
   \<and> (\<forall>k. CallWithTimeout k \<notin> set [CallFromEnv])
   \<and> (\<forall>k. CallWithUserAgent k \<notin> set [CallFromEnv])
   \<and> (\<forall>v. b_APIKey NewConfigBuilder \<noteq> Explicit v)
   \<and> (\<forall>v. b_BaseURL NewConfigBuilder \<noteq> Explicit v)
   \<and> effective (b_APIKey (FromEnv env_both NewConfigBuilder)) = Some ''y''
   \<and> effective (b_BaseURL (FromEnv env_both NewConfigBuilder)) = Some ''http://e''
   \<and> env_both ''SECURE_SBOM_API_KEY'' = Some ''y''
   \<and> env_both ''SECURE_SBOM_BASE_URL'' = Some ''http://e''
   \<and> effective (b_APIKey (apply_calls env_both [CallWithAPIKey ''x'', CallFromEnv] NewConfigBuilder))
       = Some ''x''
   \<and> effective (b_BaseURL (apply_calls env_both [CallWithBaseURL ''http://u'', CallFromEnv]
         NewConfigBuilder)) = Some ''http://u''
   \<and> effective (b_Timeout (apply_calls env_both [CallWithTimeout 5, CallFromEnv] NewConfigBuilder))
       = Some 5
   \<and> effective (b_UserAgent (apply_calls env_both [CallWithUserAgent ''agent'', CallFromEnv]
         NewConfigBuilder)) = Some ''agent''
   \<and> effective (b_APIKey (apply_calls env_both [CallFromEnv] NewConfigBuilder)) = Some ''y''
   \<and> effective (b_BaseURL (apply_calls env_both [CallFromEnv] NewConfigBuilder)) = Some ''http://e''
   \<and> effective (b_APIKey (apply_calls env_both [CallFromEnv, CallWithAPIKey ''x''] NewConfigBuilder))
       = Some ''x''
   \<and> effective (b_BaseURL (apply_calls env_both [CallFromEnv, CallWithBaseURL ''http://u'']
         NewConfigBuilder)) = Some ''http://u''"
proof -
  have h: "(\<forall>k. CallWithAPIKey k \<notin> set [CallFromEnv])
   \<and> (\<forall>k. CallWithBaseURL k \<notin> set [CallFromEnv])
   \<and> (\<forall>k. CallWithTimeout k \<notin> set [CallFromEnv])
   \<and> (\<forall>k. CallWithUserAgent k \<notin> set [CallFromEnv])
   \<and> (\<forall>v. b_APIKey NewConfigBuilder \<noteq> Explicit v)
   \<and> (\<forall>v. b_BaseURL NewConfigBuilder \<noteq> Explicit v)"
    by (simp add: NewConfigBuilder_def)
  have e: "env_both ''SECURE_SBOM_API_KEY'' = Some ''y''
   \<and> env_both ''SECURE_SBOM_BASE_URL'' = Some ''http://e''
   \<and> effective (b_APIKey (apply_calls env_both [CallFromEnv] NewConfigBuilder)) = Some ''y''
   \<and> effective (b_BaseURL (apply_calls env_both [CallFromEnv] NewConfigBuilder)) = Some ''http://e''
   \<and> effective (b_APIKey (apply_calls env_both [CallFromEnv, CallWithAPIKey ''x''] NewConfigBuilder))
       = Some ''x''
   \<and> effective (b_BaseURL (apply_calls env_both [CallFromEnv, CallWithBaseURL ''http://u'']
         NewConfigBuilder)) = Some ''http://u''"
    by (simp add: apply_calls_def FromEnv_def NewConfigBuilder_def env_both_def WithAPIKey_def
        WithBaseURL_def)
  show ?thesis
    using h e explicit_setting_wins[of "[CallFromEnv]" env_both "[]" "''x''" NewConfigBuilder
        "''http://u''" 5 "''agent''"]
    by simp
qed

section \<open>The programs\<close>

subsection \<open>The paths of the verify program\<close>

lemma flag_String_not_nil: "(flag_String cl name val = None) = False"
  by (simp add: flag_String_def)

lemma verify_main_paths:
  fixes pf :: "'s platform" and cl :: cmdline and w :: "'s world"
    and keyID sbomPath signature outfmt :: string and quiet hflag :: bool
  defines "keyID \<equiv> deref (flag_String cl ''key-id'' [])"
    and "sbomPath \<equiv> deref (flag_String cl ''sbom'' [])"
    and "signature \<equiv> deref (flag_String cl ''signature'' [])"
    and "outfmt \<equiv> deref (flag_String cl ''output'' ''text'')"
    and "quiet \<equiv> deref (flag_Bool cl ''quiet'' False)"
    and "hflag \<equiv> deref (flag_Bool cl ''help'' False)"
    and "made \<equiv> verify_createClient (os_Getenv pf) (deref (flag_String cl ''api-key'' []))
           (deref (flag_String cl ''base-url'' [])) (deref (flag_Duration cl ''timeout'' (30 * Second)))
           (deref (flag_Int cl ''retries'' 3))"
    and "ctx \<equiv> ctx_WithTimeout Background
           (wrap64 (deref (flag_Duration cl ''timeout'' (30 * Second)) + 10 * Second))"
    and "w1 \<equiv> (if \<not> quiet then emit (Progress (''Loading SBOM...'' @ nl)) w else w)"
  obtains
    (usage) "hflag" "verify_main pf cl w = (0, emit Usage w)"
  | (early) msg err where "\<not> hflag"
      "keyID = [] \<or> (outfmt \<noteq> ''text'' \<and> outfmt \<noteq> ''json'') \<or> (\<exists>e. made = Inl e)"
      "verify_main pf cl w = log_Fatal msg err w"
  | (load_failed) client err w2 where "\<not> hflag" "keyID \<noteq> []" "made = Inr client"
      "loadSignedSBOM pf sbomPath w1 = (Inl err, w2)"
      "verify_main pf cl w = log_Fatal ''Error loading signed SBOM'' (Some err) w2"
  | (health_failed) client sbom w2 err w4 where "\<not> hflag" "keyID \<noteq> []" "made = Inr client"
      "loadSignedSBOM pf sbomPath w1 = (Inr sbom, w2)"
      "HealthCheck pf client ctx
         (if \<not> quiet then emit (Progress (''Connecting to SecureSBOM API...'' @ nl)) w2 else w2)
       = (Inl err, w4)"
      "verify_main pf cl w = log_Fatal ''Error connecting to API'' (Some err) w4"
  | (verify_failed) client sbom w2 w4 err w6 where "\<not> hflag" "keyID \<noteq> []" "made = Inr client"
      "loadSignedSBOM pf sbomPath w1 = (Inr sbom, w2)"
      "HealthCheck pf client ctx
         (if \<not> quiet then emit (Progress (''Connecting to SecureSBOM API...'' @ nl)) w2 else w2)
       = (Inr (), w4)"
      "VerifySPDXSBOM pf client ctx keyID signature (Data sbom)
         (emit (LogPrint ''Verifying SPDX SBOM'')
            (if \<not> quiet
             then emit (Progress (''Verifying SBOM signature with key '' @ keyID @ ''...'' @ nl)) w4
             else w4))
       = (Inl err, w6)"
      "verify_main pf cl w = log_Fatal ''Error verifying SBOM'' (Some err) w6"
  | (verified) client sbom w2 w4 result w6 where "\<not> hflag" "keyID \<noteq> []" "made = Inr client"
      "loadSignedSBOM pf sbomPath w1 = (Inr sbom, w2)"
      "HealthCheck pf client ctx
         (if \<not> quiet then emit (Progress (''Connecting to SecureSBOM API...'' @ nl)) w2 else w2)
       = (Inr (), w4)"
      "VerifySPDXSBOM pf client ctx keyID signature (Data sbom)
         (emit (LogPrint ''Verifying SPDX SBOM'')
            (if \<not> quiet
             then emit (Progress (''Verifying SBOM signature with key '' @ keyID @ ''...'' @ nl)) w4
             else w4))
       = (Inr result, w6)"
      "verify_main pf cl w = verify_report pf result outfmt w6"
proof -
  define bad where "bad \<longleftrightarrow> outfmt \<noteq> ''text'' \<and> outfmt \<noteq> ''json''"
  note defs = keyID_def sbomPath_def signature_def outfmt_def quiet_def hflag_def made_def
    ctx_def w1_def
  note main = verify_main_def[of pf cl w, unfolded Let_def flag_String_not_nil if_False,
      folded keyID_def sbomPath_def signature_def outfmt_def quiet_def hflag_def made_def ctx_def,
      folded w1_def bad_def]
  show thesis
  proof (cases hflag)
    case True
    then have "verify_main pf cl w = (0, emit Usage w)" by (simp add: main)
    then show ?thesis using usage True by simp
  next
    case nh: False
    show ?thesis
    proof (cases "keyID = [] \<or> bad \<or> (\<exists>e. made = Inl e)")
      case True
      have "\<exists>msg err. verify_main pf cl w = log_Fatal msg err w"
      proof (cases "keyID = []")
        case True
        then show ?thesis using nh by (simp add: main, blast)
      next
        case k: False
        show ?thesis
        proof (cases bad)
          case True
          then show ?thesis using nh k by (simp add: main, blast)
        next
          case False
          then obtain e where "made = Inl e" using True k by blast
          then show ?thesis using  nh k False by (simp add: main, blast)
        qed
      qed
      then show ?thesis using early[OF nh True[unfolded bad_def]] by blast
    next
      case False
      then obtain client where k: "keyID \<noteq> []"
        and o: "\<not> bad"
        and c: "made = Inr client"
        by (cases made) auto
      obtain r2 w2 where l: "loadSignedSBOM pf sbomPath w1 = (r2, w2)"
        by (cases "loadSignedSBOM pf sbomPath w1")
      show ?thesis
      proof (cases r2)
        case (Inl err)
        then have "verify_main pf cl w = log_Fatal ''Error loading signed SBOM'' (Some err) w2"
          using nh k o c l by (simp add: main)
        then show ?thesis using load_failed[OF nh k c l[unfolded Inl]] by simp
      next
        case (Inr sbom)
        note l2 = l[unfolded Inr]
        let ?w3 = "if \<not> quiet then emit (Progress (''Connecting to SecureSBOM API...'' @ nl)) w2 else w2"
        obtain r4 w4 where h: "HealthCheck pf client ctx ?w3 = (r4, w4)"
          by (cases "HealthCheck pf client ctx ?w3")
        show ?thesis
        proof (cases r4)
          case (Inl err)
          then have "verify_main pf cl w = log_Fatal ''Error connecting to API'' (Some err) w4"
            using nh k o c l2 h by (simp add: main)
          then show ?thesis using health_failed[OF nh k c l2 h[unfolded Inl]] by simp
        next
          case (Inr u)
          have h2: "HealthCheck pf client ctx ?w3 = (Inr (), w4)" using h Inr by simp
          let ?w5 = "emit (LogPrint ''Verifying SPDX SBOM'')
            (if \<not> quiet
             then emit (Progress (''Verifying SBOM signature with key '' @ keyID @ ''...'' @ nl)) w4
             else w4)"
          obtain r6 w6 where v: "VerifySPDXSBOM pf client ctx keyID signature (Data sbom) ?w5 = (r6, w6)"
            by (cases "VerifySPDXSBOM pf client ctx keyID signature (Data sbom) ?w5")
          show ?thesis
          proof (cases r6)
            case (Inl err)
            then have "verify_main pf cl w = log_Fatal ''Error verifying SBOM'' (Some err) w6"
              using nh k o c l2 h2 v by (simp add: main)
            then show ?thesis using verify_failed[OF nh k c l2 h2 v[unfolded Inl]] by simp
          next
            case (Inr result)
            then have "verify_main pf cl w = verify_report pf result outfmt w6"
              using nh k o c l2 h2 v by (simp add: main)
            then show ?thesis using verified[OF nh k c l2 h2 v[unfolded Inr]] by simp
          qed
        qed
      qed
    qed
  qed
qed


subsection \<open>Requests sent by the client methods\<close>

lemma attempts_append: "attempts (xs @ ys) = attempts xs @ attempts ys"
  by (induction xs rule: attempts.induct) auto

lemma attempts_emit:
  "attempts (trace (emit ev w)) = attempts (trace w) @ attempts [ev]"
  by (simp add: emit_def attempts_append)

lemma attempts_attempt:
  "attempt req f w = (r, w') \<Longrightarrow> attempts (trace w') = attempts (trace w) @ [req]"
  by (auto simp: attempt_def attempts_append split: prod.splits)

lemma attempts_backoff:
  "backoff pf ctx d w = (r, w') \<Longrightarrow> attempts (trace w') = attempts (trace w)"
  by (auto simp: backoff_def attempts_append split: prod.splits option.splits)

lemma attempts_retry_from:
  assumes op: "\<And>w r w'. op w = (r, w') \<Longrightarrow>
      \<exists>m. attempts (trace w') = attempts (trace w) @ replicate (Suc m) req"
  shows "retry_from pf rc ctx op n w = (r, w') \<Longrightarrow>
      \<exists>m. attempts (trace w') = attempts (trace w) @ replicate (Suc m) req"
proof (induction "nat (MaxAttempts rc - n)" arbitrary: n w)
  case 0
  then have le: "MaxAttempts rc \<le> n" by simp
  obtain r1 w1 where w1: "op w = (r1, w1)" by (cases "op w")
  have "w' = w1" using 0(2) w1 by (simp add: retry_from_last[OF le] split: sum.splits)
  then show ?case using op[OF w1] by simp
next
  case (Suc k)
  obtain r1 w1 where w1: "op w = (r1, w1)" by (cases "op w")
  from op[OF w1] obtain m1 where a1:
    "attempts (trace w1) = attempts (trace w) @ replicate (Suc m1) req" by blast
  have lt: "n < MaxAttempts rc" using Suc by simp
  have k: "k = nat (MaxAttempts rc - (n + 1))" using Suc.hyps(2) by simp
  obtain x w2 where b: "backoff pf ctx (wait_n rc n) w1 = (x, w2)"
    by (cases "backoff pf ctx (wait_n rc n) w1")
  note a2 = attempts_backoff[OF b]
  consider (here) "w' = w1" | (cut) "w' = w2"
    | (go) "retry_from pf rc ctx op (n + 1) w2 = (r, w')"
    using Suc.prems w1 b lt
    by (subst (asm) retry_from.simps) (auto split: sum.splits if_splits option.splits)
  then show ?case
  proof cases
    case here
    then show ?thesis using a1 by blast
  next
    case cut
    then show ?thesis using a1 a2 by auto
  next
    case go
    from Suc.hyps(1)[OF k go] obtain m2 where
      "attempts (trace w') = attempts (trace w2) @ replicate (Suc m2) req" by blast
    then have "attempts (trace w') = attempts (trace w) @ replicate (Suc (Suc m1 + m2)) req"
      using a1 a2 by (simp add: replicate_add[symmetric] del: replicate_Suc)
    then show ?thesis by blast
  qed
qed

lemma attempts_once:
  "attempt req f w = (r, w') \<Longrightarrow>
   \<exists>m. attempts (trace w') = attempts (trace w) @ replicate (Suc m) req"
  using attempts_attempt[of req f w r w'] by (intro exI[of _ 0]) simp

lemma attempts_HealthCheck:
  "HealthCheck pf c ctx w = (r, w') \<Longrightarrow>
   \<exists>m. attempts (trace w') = attempts (trace w) @ replicate (Suc m) ReqHealthCheck"
proof (induction c arbitrary: r w w')
  case (BaseClient cfg)
  then have "attempt ReqHealthCheck (http_HealthCheck pf cfg ctx) w = (r, w')" by simp
  then show ?case by (rule attempts_once)
next
  case (RetryingClient c rc)
  show ?case
    by (rule attempts_retry_from[of "HealthCheck pf c ctx", OF RetryingClient.IH])
       (use RetryingClient.prems in \<open>simp_all add: retry_def\<close>)
qed


lemma attempts_ListKeys:
  "ListKeys pf c ctx w = (r, w') \<Longrightarrow>
   \<exists>m. attempts (trace w') = attempts (trace w) @ replicate (Suc m) (ReqListKeys)"
proof (induction c arbitrary: r w w')
  case (BaseClient cfg)
  then have "attempt (ReqListKeys) (http_ListKeys pf cfg ctx) w = (r, w')" by simp
  then show ?case by (rule attempts_once)
next
  case (RetryingClient c rc)
  show ?case
    by (rule attempts_retry_from[of "ListKeys pf c ctx", OF RetryingClient.IH])
       (use RetryingClient.prems in \<open>simp_all add: retry_def\<close>)
qed

lemma attempts_GenerateKey:
  "GenerateKey pf c ctx w = (r, w') \<Longrightarrow>
   \<exists>m. attempts (trace w') = attempts (trace w) @ replicate (Suc m) (ReqGenerateKey)"
proof (induction c arbitrary: r w w')
  case (BaseClient cfg)
  then have "attempt (ReqGenerateKey) (http_GenerateKey pf cfg ctx) w = (r, w')" by simp
  then show ?case by (rule attempts_once)
next
  case (RetryingClient c rc)
  show ?case
    by (rule attempts_retry_from[of "GenerateKey pf c ctx", OF RetryingClient.IH])
       (use RetryingClient.prems in \<open>simp_all add: retry_def\<close>)
qed

lemma attempts_GetPublicKey:
  "GetPublicKey pf c ctx keyID w = (r, w') \<Longrightarrow>
   \<exists>m. attempts (trace w') = attempts (trace w) @ replicate (Suc m) (ReqGetPublicKey keyID)"
proof (induction c arbitrary: r w w')
  case (BaseClient cfg)
  then have "attempt (ReqGetPublicKey keyID) (http_GetPublicKey pf cfg ctx keyID) w = (r, w')" by simp
  then show ?case by (rule attempts_once)
next
  case (RetryingClient c rc)
  show ?case
    by (rule attempts_retry_from[of "GetPublicKey pf c ctx keyID", OF RetryingClient.IH])
       (use RetryingClient.prems in \<open>simp_all add: retry_def\<close>)
qed

lemma attempts_SignSBOM:
  "SignSBOM pf c ctx keyID sbom w = (r, w') \<Longrightarrow>
   \<exists>m. attempts (trace w') = attempts (trace w) @ replicate (Suc m) (ReqSignSBOM keyID sbom)"
proof (induction c arbitrary: r w w')
  case (BaseClient cfg)
  then have "attempt (ReqSignSBOM keyID sbom) (http_SignSBOM pf cfg ctx keyID sbom) w = (r, w')" by simp
  then show ?case by (rule attempts_once)
next
  case (RetryingClient c rc)
  show ?case
    by (rule attempts_retry_from[of "SignSBOM pf c ctx keyID sbom", OF RetryingClient.IH])
       (use RetryingClient.prems in \<open>simp_all add: retry_def\<close>)
qed

lemma attempts_VerifySBOM:
  "VerifySBOM pf c ctx keyID sbom w = (r, w') \<Longrightarrow>
   \<exists>m. attempts (trace w') = attempts (trace w) @ replicate (Suc m) (ReqVerifySBOM keyID sbom)"
proof (induction c arbitrary: r w w')
  case (BaseClient cfg)
  then have "attempt (ReqVerifySBOM keyID sbom) (http_VerifySBOM pf cfg ctx keyID sbom) w = (r, w')" by simp
  then show ?case by (rule attempts_once)
next
  case (RetryingClient c rc)
  show ?case
    by (rule attempts_retry_from[of "VerifySBOM pf c ctx keyID sbom", OF RetryingClient.IH])
       (use RetryingClient.prems in \<open>simp_all add: retry_def\<close>)
qed

lemma attempts_VerifySPDXSBOM:
  "VerifySPDXSBOM pf c ctx keyID sg sbom w = (r, w') \<Longrightarrow>
   \<exists>m. attempts (trace w') = attempts (trace w) @ replicate (Suc m) (ReqVerifySPDXSBOM keyID sg sbom)"
proof (induction c arbitrary: r w w')
  case (BaseClient cfg)
  then have "attempt (ReqVerifySPDXSBOM keyID sg sbom) (http_VerifySPDXSBOM pf cfg ctx keyID sg sbom) w = (r, w')" by simp
  then show ?case by (rule attempts_once)
next
  case (RetryingClient c rc)
  show ?case
    by (rule attempts_retry_from[of "VerifySPDXSBOM pf c ctx keyID sg sbom", OF RetryingClient.IH])
       (use RetryingClient.prems in \<open>simp_all add: retry_def\<close>)
qed

lemma attempts_if_emit:
  "attempts (trace (if b then emit ev w else w)) = attempts (trace w) @ (if b then attempts [ev] else [])"
  by (simp add: attempts_emit)

lemma attempts_log_Fatal:
  "attempts (trace (snd (log_Fatal msg err w))) = attempts (trace w)"
  by (simp add: log_Fatal_def attempts_emit)

lemma attempts_load: "load f w = (r, w') \<Longrightarrow> attempts (trace w') = attempts (trace w)"
  by (auto simp: load_def split: prod.splits)

lemma attempts_loadSignedSBOM:
  "loadSignedSBOM pf path w = (r, w') \<Longrightarrow> attempts (trace w') = attempts (trace w)"
  by (auto simp: loadSignedSBOM_def dest: attempts_load split: if_splits)

lemma attempts_json_Encode:
  "attempts (trace (snd (json_Encode pf v w))) = attempts (trace w)"
  by (auto simp: json_Encode_def attempts_append split: prod.splits)

lemma attempts_WriteFile_os:
  "attempts (trace (snd (WriteFile_os pf name data perm w))) = attempts (trace w)"
  by (auto simp: WriteFile_os_def attempts_append split: prod.splits)

lemma attempts_outputVerificationResult:
  "attempts (trace (snd (outputVerificationResult pf r fmt w))) = attempts (trace w)"
  by (simp add: outputVerificationResult_def outputVerificationJSON_def
      outputVerificationText_def Let_def attempts_json_Encode attempts_emit)

lemma attempts_verify_report:
  "attempts (trace (snd (verify_report pf r fmt w))) = attempts (trace w)"
  using attempts_outputVerificationResult[of pf r fmt w]
  by (auto simp: verify_report_def attempts_log_Fatal split: prod.splits option.splits)

lemma fst_log_Fatal: "fst (log_Fatal msg err w) = 1"
  by (simp add: log_Fatal_def)


subsection \<open>Requests of the verify program\<close>

lemma verify_main_requests:
  "\<exists>hc ver sbom.
     attempts (trace (snd (verify_main pf cl w))) =
       attempts (trace w) @ replicate hc ReqHealthCheck
         @ replicate ver (ReqVerifySPDXSBOM (deref (flag_String cl ''key-id'' []))
             (deref (flag_String cl ''signature'' [])) sbom)
     \<and> (0 < ver \<longrightarrow> 0 < hc)
     \<and> (fst (verify_main pf cl w) = 0 \<and> \<not> deref (flag_Bool cl ''help'' False) \<longrightarrow> 0 < ver)"
proof (cases pf cl w rule: verify_main_paths)
  case usage
  then show ?thesis by (intro exI[of _ 0]) (simp add: attempts_emit)
next
  case (early msg err)
  then show ?thesis by (intro exI[of _ 0]) (simp add: attempts_log_Fatal fst_log_Fatal)
next
  case (load_failed client err w2)
  then show ?thesis
    by (intro exI[of _ 0])
       (auto simp: attempts_log_Fatal fst_log_Fatal attempts_emit dest!: attempts_loadSignedSBOM
          split: if_splits)
next
  case (health_failed client sbom w2 err w4)
  from attempts_HealthCheck[OF health_failed(5)] attempts_loadSignedSBOM[OF health_failed(4)]
  obtain m where "attempts (trace w4) = attempts (trace w) @ replicate (Suc m) ReqHealthCheck"
    by (auto simp: attempts_emit split: if_splits)
  then show ?thesis using health_failed(6)
    by (intro exI[of _ "Suc m"] exI[of _ 0]) (simp add: attempts_log_Fatal fst_log_Fatal)
next
  case (verify_failed client sbom w2 w4 err w6)
  from attempts_HealthCheck[OF verify_failed(5)] attempts_loadSignedSBOM[OF verify_failed(4)]
  obtain m where m: "attempts (trace w4) = attempts (trace w) @ replicate (Suc m) ReqHealthCheck"
    by (auto simp: attempts_emit split: if_splits)
  from attempts_VerifySPDXSBOM[OF verify_failed(6)] m
  obtain n where "attempts (trace w6) = attempts (trace w) @ replicate (Suc m) ReqHealthCheck
      @ replicate (Suc n) (ReqVerifySPDXSBOM (deref (flag_String cl ''key-id'' []))
             (deref (flag_String cl ''signature'' [])) (Data sbom))"
    by (auto simp: attempts_emit split: if_splits)
  then show ?thesis using verify_failed(7)
    by (intro exI[of _ "Suc m"] exI[of _ "Suc n"] exI[of _ "Data sbom"])
       (simp add: attempts_log_Fatal fst_log_Fatal)
next
  case (verified client sbom w2 w4 result w6)
  from attempts_HealthCheck[OF verified(5)] attempts_loadSignedSBOM[OF verified(4)]
  obtain m where m: "attempts (trace w4) = attempts (trace w) @ replicate (Suc m) ReqHealthCheck"
    by (auto simp: attempts_emit split: if_splits)
  from attempts_VerifySPDXSBOM[OF verified(6)] m
  obtain n where "attempts (trace w6) = attempts (trace w) @ replicate (Suc m) ReqHealthCheck
      @ replicate (Suc n) (ReqVerifySPDXSBOM (deref (flag_String cl ''key-id'' []))
             (deref (flag_String cl ''signature'' [])) (Data sbom))"
    by (auto simp: attempts_emit split: if_splits)
  then show ?thesis using verified(7)
    by (intro exI[of _ "Suc m"] exI[of _ "Suc n"] exI[of _ "Data sbom"])
       (simp add: attempts_verify_report)
qed

subsection \<open>Running the programs on the concrete platform\<close>

lemmas run_defs = Let_def flag_String_def flag_Bool_def flag_Int_def flag_Duration_def
  with_key_id_def no_flags_def save_public_flags_def
  loadSignedSBOM_def loadSBOM_def load_def demo_platform_def emit_def
  start_world_def retry_def retry_from.simps attempt_def answer_def backoff_def
  verify_report_def demo_result_def demo_key_def log_Fatal_def json_Encode_def WriteFile_os_def
  outputVerificationResult_def outputVerificationText_def outputVerificationJSON_def
  outputSignedSBOM_def outputJSON_def outputKeysTable_def outputGeneratedKeyTable_def
  verify_createClient_def sign_createClient_def keymgmt_createClient_def
  FromEnv_def WithTimeout_def WithAPIKey_def WithBaseURL_def
  NewConfigBuilder_def BuildClient_def WithRetryingClient_def Second_def
  service_up_def service_down_def never_done_def wait_n_def
  keymgmt_main_def runListCommand_def runGenerateCommand_def runPublicCommand_def

text \<open>
  C1. In the verify program the pointer that \<^verbatim>\<open>flag.String\<close> returns for
  \<^verbatim>\<open>-signature\<close> is never nil, so the test \<^verbatim>\<open>signature == nil\<close> is false in
  every run: the requests of a run are health checks followed by SPDX verifications with
  the key id and the value of the signature flag (empty by default), a run that ends with
  exit code 0 without \<^verbatim>\<open>-help\<close> has sent such a verification, and no run sends a
  CycloneDX verification (\<^verbatim>\<open>VerifySBOM\<close>).
\<close>

theorem verify_routes_through_SPDX:
  "flag_String cl ''signature'' [] \<noteq> None
   \<and> (\<exists>hc ver sbom.
         attempts (trace (snd (verify_main pf cl w))) =
           attempts (trace w) @ replicate hc ReqHealthCheck
             @ replicate ver (ReqVerifySPDXSBOM (deref (flag_String cl ''key-id'' []))
                 (deref (flag_String cl ''signature'' [])) sbom)
         \<and> (fst (verify_main pf cl w) = 0 \<and> \<not> deref (flag_Bool cl ''help'' False) \<longrightarrow> 0 < ver))
   \<and> (\<forall>keyID sbom. ReqVerifySBOM keyID sbom \<in> set (attempts (trace (snd (verify_main pf cl w))))
         \<longrightarrow> ReqVerifySBOM keyID sbom \<in> set (attempts (trace w)))"
proof -
  from verify_main_requests[of pf cl w] obtain hc ver sbom where
    r: "attempts (trace (snd (verify_main pf cl w))) =
           attempts (trace w) @ replicate hc ReqHealthCheck
             @ replicate ver (ReqVerifySPDXSBOM (deref (flag_String cl ''key-id'' []))
                 (deref (flag_String cl ''signature'' [])) sbom)"
    and v: "fst (verify_main pf cl w) = 0 \<and> \<not> deref (flag_Bool cl ''help'' False) \<longrightarrow> 0 < ver"
    by blast
  have "\<forall>keyID sbom. ReqVerifySBOM keyID sbom \<in> set (attempts (trace (snd (verify_main pf cl w))))
         \<longrightarrow> ReqVerifySBOM keyID sbom \<in> set (attempts (trace w))"
    unfolding r by auto
  then show ?thesis using r v by (simp add: flag_String_not_nil) blast
qed

theorem verify_routes_through_SPDX_witness:
  "string_flags with_key_id ''signature'' = None
   \<and> fst (verify_main (demo_platform service_up never_done True) with_key_id start_world) = 0
   \<and> \<not> deref (flag_Bool with_key_id ''help'' False)
   \<and> attempts (trace (snd (verify_main (demo_platform service_up never_done True) with_key_id
          start_world))) = [ReqHealthCheck, ReqVerifySPDXSBOM ''k1'' [] ''doc'']"
  using verify_routes_through_SPDX[of with_key_id "demo_platform service_up never_done True"
      start_world]
  by (simp add: verify_main_def run_defs)


subsection \<open>Results of the client methods\<close>


lemma retry_from_succeeds:
  "\<forall>w. \<exists>v. fst (op w) = Inr v \<Longrightarrow> \<exists>v. fst (retry_from pf rc ctx op n w) = Inr v"
  by (metis retry_from_success)







subsection \<open>The exit code of the verify program\<close>











subsection \<open>Requests of the sign program\<close>

lemma attempts_loadSBOM:
  "loadSBOM pf path w = (r, w') \<Longrightarrow> attempts (trace w') = attempts (trace w)"
  by (auto simp: loadSBOM_def dest: attempts_load split: if_splits)

lemma attempts_WriteFile_os_result:
  "WriteFile_os pf name data perm w = (r, w') \<Longrightarrow> attempts (trace w') = attempts (trace w)"
  using attempts_WriteFile_os[of pf name data perm w] by simp

lemma attempts_json_Encode_result:
  "json_Encode pf v w = (r, w') \<Longrightarrow> attempts (trace w') = attempts (trace w)"
  using attempts_json_Encode[of pf v w] by simp

lemma attempts_outputSignedSBOM:
  "attempts (trace (snd (outputSignedSBOM pf result path w))) = attempts (trace w)"
  by (auto simp: outputSignedSBOM_def attempts_emit dest: attempts_WriteFile_os_result
      split: sum.splits prod.splits option.splits)

lemma sign_main_requests:
  fixes pf :: "'s platform" and cl :: cmdline and w :: "'s world"
    and keyID sbomPath outputPath :: string and quiet hflag :: bool
  defines "keyID \<equiv> deref (flag_String cl ''key-id'' [])"
    and "sbomPath \<equiv> deref (flag_String cl ''sbom'' [])"
    and "outputPath \<equiv> deref (flag_String cl ''output'' [])"
    and "quiet \<equiv> deref (flag_Bool cl ''quiet'' False)"
    and "hflag \<equiv> deref (flag_Bool cl ''help'' False)"
    and "made \<equiv> sign_createClient (os_Getenv pf) (deref (flag_String cl ''api-key'' []))
           (deref (flag_String cl ''base-url'' [])) (deref (flag_Duration cl ''timeout'' (30 * Second)))
           (deref (flag_Int cl ''retries'' 3))"
    and "ctx \<equiv> ctx_WithTimeout Background
           (wrap64 (deref (flag_Duration cl ''timeout'' (30 * Second)) + 10 * Second))"
  shows "\<exists>hc sg sbom.
     attempts (trace (snd (sign_main pf cl w))) =
       attempts (trace w) @ replicate hc ReqHealthCheck @ replicate sg (ReqSignSBOM keyID sbom)
     \<and> (0 < sg \<longrightarrow> 0 < hc)
     \<and> (fst (sign_main pf cl w) = 0 \<and> \<not> hflag \<longrightarrow> 0 < sg)"
proof -
  note main = sign_main_def[of pf cl w, unfolded Let_def,
      folded keyID_def sbomPath_def outputPath_def quiet_def hflag_def made_def ctx_def]
  have none: "attempts (trace (snd (sign_main pf cl w))) = attempts (trace w)
      \<and> (fst (sign_main pf cl w) = 0 \<longrightarrow> hflag) \<Longrightarrow> ?thesis"
    by (intro exI[of _ 0]) simp
  show ?thesis
  proof (cases hflag)
    case True
    then show ?thesis by (intro none) (simp add: main attempts_emit)
  next
    case nh: False
    show ?thesis
    proof (cases "keyID = []")
      case True
      then show ?thesis using nh by (intro none) (simp add: main attempts_log_Fatal fst_log_Fatal)
    next
      case k: False
      show ?thesis
      proof (cases made)
        case (Inl err)
        then show ?thesis using nh k
          by (intro none) (simp add: main attempts_log_Fatal fst_log_Fatal)
      next
        case (Inr client)
        let ?w1 = "if \<not> quiet then emit (Progress (''Loading SBOM...'' @ nl)) w else w"
        obtain r2 w2 where l: "loadSBOM pf sbomPath ?w1 = (r2, w2)"
          by (cases "loadSBOM pf sbomPath ?w1")
        have a2: "attempts (trace w2) = attempts (trace w)"
          using attempts_loadSBOM[OF l] by (simp add: attempts_emit)
        show ?thesis
        proof (cases r2)
          case (Inl err)
          then show ?thesis using nh k Inr l a2
            by (intro none) (simp add: main attempts_log_Fatal fst_log_Fatal)
        next
          case sb: (Inr sbom)
          let ?w3 = "if \<not> quiet then emit (Progress (''Connecting to SecureSBOM API...'' @ nl)) w2
                     else w2"
          obtain r4 w4 where h: "HealthCheck pf client ctx ?w3 = (r4, w4)"
            by (cases "HealthCheck pf client ctx ?w3")
          from attempts_HealthCheck[OF h] a2 obtain m where
            a4: "attempts (trace w4) = attempts (trace w) @ replicate (Suc m) ReqHealthCheck"
            by (auto simp: attempts_emit split: if_splits)
          show ?thesis
          proof (cases r4)
            case (Inl err)
            then have "attempts (trace (snd (sign_main pf cl w))) =
                attempts (trace w) @ replicate (Suc m) ReqHealthCheck
                \<and> fst (sign_main pf cl w) = 1"
              using nh k Inr l sb h a4 by (simp add: main attempts_log_Fatal fst_log_Fatal)
            then show ?thesis by (intro exI[of _ "Suc m"] exI[of _ 0]) simp
          next
            case u: (Inr u)
            let ?w5 = "if \<not> quiet
                       then emit (Progress (''Signing SBOM with key '' @ keyID @ ''...'' @ nl)) w4
                       else w4"
            obtain r6 w6 where s: "SignSBOM pf client ctx keyID (Data sbom) ?w5 = (r6, w6)"
              by (cases "SignSBOM pf client ctx keyID (Data sbom) ?w5")
            from attempts_SignSBOM[OF s] a4 obtain n where
              a6: "attempts (trace w6) = attempts (trace w) @ replicate (Suc m) ReqHealthCheck
                     @ replicate (Suc n) (ReqSignSBOM keyID (Data sbom))"
              by (auto simp: attempts_emit split: if_splits)
            have "attempts (trace (snd (sign_main pf cl w))) = attempts (trace w6)"
            proof (cases r6)
              case (Inl err)
              then show ?thesis using nh k Inr l sb h u s
                by (simp add: main attempts_log_Fatal)
            next
              case res: (Inr result)
              obtain x w7 where o: "outputSignedSBOM pf result outputPath w6 = (x, w7)"
                by (cases "outputSignedSBOM pf result outputPath w6")
              have a7: "attempts (trace w7) = attempts (trace w6)"
                using attempts_outputSignedSBOM[of pf result outputPath w6] o by simp
              show ?thesis using nh k Inr l sb h u s res o a7
                by (cases x) (simp_all add: main attempts_log_Fatal attempts_emit)
            qed
            then show ?thesis using a6
              by (intro exI[of _ "Suc m"] exI[of _ "Suc n"] exI[of _ "Data sbom"]) simp
          qed
        qed
      qed
    qed
  qed
qed


subsection \<open>Requests of the keymgmt program\<close>

lemma BuildClient_base: "BuildClient b = Inr c \<Longrightarrow> \<exists>cfg. c = BaseClient cfg"
  by (auto simp: BuildClient_def split: option.splits if_splits)

lemma keymgmt_createClient_base:
  "keymgmt_createClient getenv apiKey baseURL timeout = Inr c \<Longrightarrow> \<exists>cfg. c = BaseClient cfg"
  by (auto simp: keymgmt_createClient_def Let_def dest: BuildClient_base)

lemma attempts_outputJSON:
  "attempts (trace (snd (outputJSON pf v w))) = attempts (trace w)"
  by (auto simp: outputJSON_def attempts_log_Fatal dest: attempts_json_Encode_result
      split: prod.splits option.splits)

lemma attempts_outputKeysTable:
  "attempts (trace (snd (outputKeysTable pf r w))) = attempts (trace w)"
  by (simp add: outputKeysTable_def Let_def attempts_emit)

lemma attempts_outputGeneratedKeyTable:
  "attempts (trace (snd (outputGeneratedKeyTable pf key w))) = attempts (trace w)"
  by (simp add: outputGeneratedKeyTable_def Let_def attempts_emit)

lemma runListCommand_requests:
  "\<exists>rs. attempts (trace (snd (runListCommand pf cl w))) = attempts (trace w) @ rs
     \<and> (rs = [] \<or> rs = [ReqListKeys])"
proof -
  let ?out = "deref (flag_String cl ''output'' ''table'')"
  let ?made = "keymgmt_createClient (os_Getenv pf) (deref (flag_String cl ''api-key'' []))
     (deref (flag_String cl ''base-url'' [])) (deref (flag_Duration cl ''timeout'' (30 * Second)))"
  note main = runListCommand_def[of pf cl w, unfolded Let_def]
  show ?thesis
  proof (cases "?out \<noteq> ''table'' \<and> ?out \<noteq> ''json''")
    case True
    then show ?thesis by (intro exI[of _ "[]"]) (simp add: main attempts_log_Fatal)
  next
    case o: False
    show ?thesis
    proof (cases ?made)
      case (Inl err)
      then show ?thesis using o by (intro exI[of _ "[]"]) (simp add: main attempts_log_Fatal)
    next
      case (Inr client)
      then obtain cfg where c: "?made = Inr (BaseClient cfg)"
        using keymgmt_createClient_base by blast
      have "attempts (trace (snd (runListCommand pf cl w))) = attempts (trace w) @ [ReqListKeys]"
        using o c
        by (auto simp: main attempts_log_Fatal attempts_outputJSON attempts_outputKeysTable
            attempts_emit dest!: attempts_attempt split: prod.splits sum.splits)
      then show ?thesis by blast
    qed
  qed
qed

lemma runGenerateCommand_requests:
  "\<exists>rs. attempts (trace (snd (runGenerateCommand pf cl w))) = attempts (trace w) @ rs
     \<and> (rs = [] \<or> rs = [ReqGenerateKey])"
proof -
  let ?out = "deref (flag_String cl ''output'' ''table'')"
  let ?made = "keymgmt_createClient (os_Getenv pf) (deref (flag_String cl ''api-key'' []))
     (deref (flag_String cl ''base-url'' [])) (deref (flag_Duration cl ''timeout'' (30 * Second)))"
  note main = runGenerateCommand_def[of pf cl w, unfolded Let_def]
  show ?thesis
  proof (cases "?out \<noteq> ''table'' \<and> ?out \<noteq> ''json''")
    case True
    then show ?thesis by (intro exI[of _ "[]"]) (simp add: main attempts_log_Fatal)
  next
    case o: False
    show ?thesis
    proof (cases ?made)
      case (Inl err)
      then show ?thesis using o by (intro exI[of _ "[]"]) (simp add: main attempts_log_Fatal)
    next
      case (Inr client)
      then obtain cfg where c: "?made = Inr (BaseClient cfg)"
        using keymgmt_createClient_base by blast
      have "attempts (trace (snd (runGenerateCommand pf cl w))) = attempts (trace w) @ [ReqGenerateKey]"
        using o c
        by (auto simp: main attempts_log_Fatal attempts_outputJSON attempts_outputGeneratedKeyTable
            attempts_emit dest!: attempts_attempt attempts_WriteFile_os_result
            split: prod.splits sum.splits option.splits)
      then show ?thesis by blast
    qed
  qed
qed

lemma runPublicCommand_requests:
  "\<exists>rs. attempts (trace (snd (runPublicCommand pf cl w))) = attempts (trace w) @ rs
     \<and> (rs = [] \<or> (\<exists>keyID. rs = [ReqGetPublicKey keyID]))"
proof -
  let ?made = "keymgmt_createClient (os_Getenv pf) (deref (flag_String cl ''api-key'' []))
     (deref (flag_String cl ''base-url'' [])) (deref (flag_Duration cl ''timeout'' (30 * Second)))"
  note main = runPublicCommand_def[of pf cl w, unfolded Let_def]
  show ?thesis
  proof (cases "length (positional cl) < 1")
    case True
    then show ?thesis by (intro exI[of _ "[]"]) (simp add: main attempts_log_Fatal)
  next
    case o: False
    show ?thesis
    proof (cases ?made)
      case (Inl err)
      then show ?thesis using o by (intro exI[of _ "[]"]) (simp add: main attempts_log_Fatal)
    next
      case (Inr client)
      then obtain cfg where c: "?made = Inr (BaseClient cfg)"
        using keymgmt_createClient_base by blast
      have "attempts (trace (snd (runPublicCommand pf cl w))) =
          attempts (trace w) @ [ReqGetPublicKey (hd (positional cl))]"
        using o c
        by (auto simp: main attempts_log_Fatal attempts_emit
            dest!: attempts_attempt attempts_WriteFile_os_result
            split: prod.splits sum.splits option.splits)
      then show ?thesis by blast
    qed
  qed
qed

lemma keymgmt_main_requests:
  "\<exists>rs. attempts (trace (snd (keymgmt_main pf args cl w))) = attempts (trace w) @ rs
     \<and> (rs = [] \<or> rs = [ReqListKeys] \<or> rs = [ReqGenerateKey]
          \<or> (\<exists>keyID. rs = [ReqGetPublicKey keyID]))"
  using runListCommand_requests[of pf cl w] runGenerateCommand_requests[of pf cl w]
    runPublicCommand_requests[of pf cl w]
  by (auto simp: keymgmt_main_def Let_def attempts_emit)


subsection \<open>Saving the public key\<close>

lemma renders_outputJSON:
  "\<exists>ev tl. trace (snd (outputJSON pf v w)) = trace w @ ev # tl \<and> is_render ev
     \<and> (\<forall>name data perm. WriteFile name data perm \<notin> set tl)"
  by (auto simp: outputJSON_def json_Encode_def log_Fatal_def emit_def
      split: prod.splits option.splits)

lemma renders_outputGeneratedKeyTable:
  "\<exists>ev tl. trace (snd (outputGeneratedKeyTable pf key w)) = trace w @ ev # tl \<and> is_render ev
     \<and> (\<forall>name data perm. WriteFile name data perm \<notin> set tl)"
  by (simp add: outputGeneratedKeyTable_def Let_def emit_def)

lemma ext_emit: "ext (emit ev w) = ext w"
  by (simp add: emit_def)

lemma ext_outputJSON:
  "ext (snd (outputJSON pf v w)) = snd (stdout_Encode pf v (ext w))"
  by (simp add: outputJSON_def json_Encode_def log_Fatal_def emit_def
      split: prod.splits option.splits)

lemma ext_outputGeneratedKeyTable:
  "ext (snd (outputGeneratedKeyTable pf key w)) = ext w"
  by (simp add: outputGeneratedKeyTable_def Let_def emit_def)

text \<open>
  C9. When \<^verbatim>\<open>keymgmt generate\<close> runs with \<^verbatim>\<open>-save-public\<close> set to a path and
  \<^verbatim>\<open>GenerateKey\<close> succeeds, the program writes one file: the operating system's
  \<^verbatim>\<open>os.WriteFile\<close> is applied, to the state the request left, with the given path,
  exactly the returned key's \<open>PublicKey\<close> as data and mode 0644, and the state it returns
  is the one the program goes on with. Nothing is rendered on standard output before the
  write; when the write succeeds the key is rendered after it (the JSON encoder runs on
  the state the write left), and when the write fails the program ends with exit code 1
  and renders nothing.
\<close>

theorem generate_saves_public_key:
  fixes pf :: "'s platform" and cl :: cmdline and w :: "'s world"
    and savePublic outfmt :: string and quiet :: bool
  defines "savePublic \<equiv> deref (flag_String cl ''save-public'' [])"
    and "outfmt \<equiv> deref (flag_String cl ''output'' ''table'')"
    and "quiet \<equiv> deref (flag_Bool cl ''quiet'' False)"
    and "made \<equiv> keymgmt_createClient (os_Getenv pf) (deref (flag_String cl ''api-key'' []))
           (deref (flag_String cl ''base-url'' [])) (deref (flag_Duration cl ''timeout'' (30 * Second)))"
    and "ctx \<equiv> ctx_WithTimeout Background (deref (flag_Duration cl ''timeout'' (30 * Second)))"
    and "w1 \<equiv> (if \<not> quiet then emit (Progress (''Generating new signing key...'' @ nl)) w else w)"
  assumes "savePublic \<noteq> []"
    and "outfmt = ''table'' \<or> outfmt = ''json''"
    and "made = Inr client"
    and "GenerateKey pf client ctx w1 = (Inr key, w2)"
  shows "\<exists>pre rest.
      trace (snd (runGenerateCommand pf cl w)) =
        trace w @ pre @ WriteFile savePublic (gen_PublicKey key) perm_0644 # rest
    \<and> list_all (\<lambda>ev. \<not> is_render ev) pre
    \<and> (\<forall>name data perm. WriteFile name data perm \<notin> set pre \<union> set rest)
    \<and> (fst (os_WriteFile pf savePublic (gen_PublicKey key) perm_0644 (ext w2)) = None
          \<longrightarrow> (\<exists>ev \<in> set rest. is_render ev)
            \<and> ext (snd (runGenerateCommand pf cl w)) =
                (if outfmt = ''json''
                 then snd (stdout_Encode pf (EncGeneratedKey key)
                        (snd (os_WriteFile pf savePublic (gen_PublicKey key) perm_0644 (ext w2))))
                 else snd (os_WriteFile pf savePublic (gen_PublicKey key) perm_0644 (ext w2))))
    \<and> (fst (os_WriteFile pf savePublic (gen_PublicKey key) perm_0644 (ext w2)) \<noteq> None
          \<longrightarrow> fst (runGenerateCommand pf cl w) = 1 \<and> list_all (\<lambda>ev. \<not> is_render ev) rest
            \<and> ext (snd (runGenerateCommand pf cl w)) =
                snd (os_WriteFile pf savePublic (gen_PublicKey key) perm_0644 (ext w2)))"
proof -
  define bad where "bad \<longleftrightarrow> outfmt \<noteq> ''table'' \<and> outfmt \<noteq> ''json''"
  have nb: "\<not> bad" using assms(8) by (auto simp: bad_def)
  note main = runGenerateCommand_def[of pf cl w, unfolded Let_def,
      folded savePublic_def outfmt_def quiet_def made_def ctx_def, folded w1_def bad_def]
  obtain cfg where c: "client = BaseClient cfg"
    using keymgmt_createClient_base assms(9) unfolding made_def by blast
  let ?pre = "(if \<not> quiet then [Progress (''Generating new signing key...'' @ nl)] else [])
      @ [Attempt ReqGenerateKey]"
  have t2: "trace w2 = trace w @ ?pre"
    using assms(10) unfolding c w1_def
    by (auto simp: attempt_def emit_def split: prod.splits)
  let ?wr = "WriteFile savePublic (gen_PublicKey key) perm_0644"
  obtain x s3 where wr: "os_WriteFile pf savePublic (gen_PublicKey key) perm_0644 (ext w2) = (x, s3)"
    by (cases "os_WriteFile pf savePublic (gen_PublicKey key) perm_0644 (ext w2)")
  let ?w3 = "w2\<lparr>ext := s3, trace := trace w2 @ [?wr]\<rparr>"
  have w3: "WriteFile_os pf savePublic (gen_PublicKey key) perm_0644 w2 = (x, ?w3)"
    by (simp add: WriteFile_os_def wr)
  have pre: "list_all (\<lambda>ev. \<not> is_render ev) ?pre
      \<and> (\<forall>name data perm. WriteFile name data perm \<notin> set ?pre)"
    by simp
  show ?thesis
  proof (cases x)
    case (Some err)
    have r: "runGenerateCommand pf cl w = log_Fatal ''Error saving public key'' (Some err) ?w3"
      using nb assms(7,9,10) w3 Some by (simp add: main)
    have "trace (snd (runGenerateCommand pf cl w)) =
        trace w @ ?pre @ ?wr # [LogFatal ''Error saving public key'' (Some err)]"
      unfolding r by (simp add: log_Fatal_def emit_def t2)
    moreover have "fst (runGenerateCommand pf cl w) = 1" unfolding r by (simp add: log_Fatal_def)
    moreover have "ext (snd (runGenerateCommand pf cl w)) = s3"
      unfolding r by (simp add: log_Fatal_def emit_def)
    ultimately show ?thesis using pre wr Some
      by (intro exI[of _ ?pre] exI[of _ "[LogFatal ''Error saving public key'' (Some err)]"])
         simp
  next
    case None
    let ?saved = "(if \<not> quiet then [Progress (''Public key saved to: '' @ savePublic @ nl)] else [])"
    let ?w4 = "if \<not> quiet then emit (Progress (''Public key saved to: '' @ savePublic @ nl)) ?w3
               else ?w3"
    have t4: "trace ?w4 = trace w @ ?pre @ ?wr # ?saved"
      by (simp add: emit_def t2)
    have e4: "ext ?w4 = s3"
      by (simp add: emit_def)
    have r: "runGenerateCommand pf cl w =
        (if outfmt = ''json'' then outputJSON pf (EncGeneratedKey key) ?w4
         else outputGeneratedKeyTable pf key ?w4)"
      using nb assms(7,9,10) w3 None by (simp add: main)
    obtain ev tl where tl: "trace (snd (runGenerateCommand pf cl w)) = trace ?w4 @ ev # tl"
      "is_render ev" "\<forall>name data perm. WriteFile name data perm \<notin> set tl"
      using renders_outputJSON[of pf "EncGeneratedKey key" ?w4]
        renders_outputGeneratedKeyTable[of pf key ?w4]
      unfolding r by (cases "outfmt = ''json''") auto
    have "trace (snd (runGenerateCommand pf cl w)) = trace w @ ?pre @ ?wr # (?saved @ ev # tl)"
      unfolding tl(1) t4 by simp
    moreover have "\<forall>name data perm. WriteFile name data perm \<notin> set (?saved @ ev # tl)"
      using tl(2,3) by (cases ev) auto
    moreover have "\<exists>ev' \<in> set (?saved @ ev # tl). is_render ev'" using tl(2) by auto
    moreover have "ext (snd (runGenerateCommand pf cl w)) =
        (if outfmt = ''json'' then snd (stdout_Encode pf (EncGeneratedKey key) s3) else s3)"
    proof (cases "outfmt = ''json''")
      case True
      have "runGenerateCommand pf cl w = outputJSON pf (EncGeneratedKey key) ?w4"
        using r True by simp
      then have "ext (snd (runGenerateCommand pf cl w))
          = snd (stdout_Encode pf (EncGeneratedKey key) (ext ?w4))"
        by (simp only: ext_outputJSON)
      then show ?thesis using True by (simp add: e4)
    next
      case False
      have "runGenerateCommand pf cl w = outputGeneratedKeyTable pf key ?w4"
        using r False by simp
      then have "ext (snd (runGenerateCommand pf cl w)) = ext ?w4"
        by (simp only: ext_outputGeneratedKeyTable)
      then show ?thesis using False by (simp add: e4)
    qed
    ultimately show ?thesis using pre wr None
      by (intro exI[of _ ?pre] exI[of _ "?saved @ ev # tl"]) simp
  qed
qed

theorem generate_saves_public_key_witness:
  "deref (flag_String save_public_flags ''save-public'' []) = ''out.pem''
   \<and> deref (flag_String save_public_flags ''output'' ''table'') = ''table''
   \<and> gen_PublicKey demo_key = ''PEM''
   \<and> ext empty_disk = []
   \<and> ext (snd (runGenerateCommand file_platform save_public_flags empty_disk))
        = [(''out.pem'', ''PEM'')]
   \<and> (\<exists>rest. trace (snd (runGenerateCommand file_platform save_public_flags empty_disk))
        = [Progress (''Generating new signing key...'' @ nl), Attempt ReqGenerateKey,
           WriteFile ''out.pem'' ''PEM'' perm_0644,
           Progress (''Public key saved to: out.pem'' @ nl)] @ rest
        \<and> list_all is_render rest \<and> rest \<noteq> [])"
proof -
  let ?pf = "file_platform"
  have a: "deref (flag_String save_public_flags ''save-public'' []) \<noteq> []"
    by (simp add: flag_String_def save_public_flags_def no_flags_def)
  have b: "deref (flag_String save_public_flags ''output'' ''table'') = ''table''
      \<or> deref (flag_String save_public_flags ''output'' ''table'') = ''json''"
    by (simp add: flag_String_def save_public_flags_def no_flags_def)
  have c: "keymgmt_createClient (os_Getenv ?pf) (deref (flag_String save_public_flags ''api-key'' []))
      (deref (flag_String save_public_flags ''base-url'' []))
      (deref (flag_Duration save_public_flags ''timeout'' (30 * Second)))
    = Inr (BaseClient \<lparr>APIKey = ''secret'', BaseURL = None, Timeout = Some 30000000000,
             UserAgent = None\<rparr>)"
    by (simp add: run_defs file_platform_def)
  have d: "GenerateKey ?pf (BaseClient \<lparr>APIKey = ''secret'', BaseURL = None,
             Timeout = Some 30000000000, UserAgent = None\<rparr>)
       (ctx_WithTimeout Background (deref (flag_Duration save_public_flags ''timeout'' (30 * Second))))
       (if \<not> deref (flag_Bool save_public_flags ''quiet'' False)
        then emit (Progress (''Generating new signing key...'' @ nl)) empty_disk else empty_disk)
     = (Inr demo_key, \<lparr>ext = [], trace = [Progress (''Generating new signing key...'' @ nl),
           Attempt ReqGenerateKey]\<rparr>)"
    by (simp add: run_defs file_platform_def empty_disk_def)
  show ?thesis
    using generate_saves_public_key[OF a b c d]
    by (simp add: run_defs file_platform_def empty_disk_def perm_0644_def nl_def)
qed


subsection \<open>Health checks\<close>

text \<open>
  C3, amended. The requests of a run of sign are health checks followed by sign requests,
  and those of a run of verify are health checks followed by verifications: the main
  operation is never dispatched unless a health check came before it. A run of keymgmt
  sends at most one request, the main operation itself (list keys, generate key or get
  public key), and never a health check.
\<close>

theorem health_check_precedes_sign_and_verify:
  "(\<exists>hc sg sbom.
      attempts (trace (snd (sign_main pf cl w))) =
        attempts (trace w) @ replicate hc ReqHealthCheck
          @ replicate sg (ReqSignSBOM (deref (flag_String cl ''key-id'' [])) sbom)
      \<and> (0 < sg \<longrightarrow> 0 < hc))
   \<and> (\<exists>hc ver sbom.
      attempts (trace (snd (verify_main pf cl w))) =
        attempts (trace w) @ replicate hc ReqHealthCheck
          @ replicate ver (ReqVerifySPDXSBOM (deref (flag_String cl ''key-id'' []))
              (deref (flag_String cl ''signature'' [])) sbom)
      \<and> (0 < ver \<longrightarrow> 0 < hc))
   \<and> (\<exists>rs.
      attempts (trace (snd (keymgmt_main pf args cl w))) = attempts (trace w) @ rs
      \<and> (rs = [] \<or> rs = [ReqListKeys] \<or> rs = [ReqGenerateKey]
           \<or> (\<exists>keyID. rs = [ReqGetPublicKey keyID]))
      \<and> ReqHealthCheck \<notin> set rs)"
proof -
  have s: "\<exists>hc sg sbom.
      attempts (trace (snd (sign_main pf cl w))) =
        attempts (trace w) @ replicate hc ReqHealthCheck
          @ replicate sg (ReqSignSBOM (deref (flag_String cl ''key-id'' [])) sbom)
      \<and> (0 < sg \<longrightarrow> 0 < hc)"
    using sign_main_requests[of pf cl w] by blast
  have v: "\<exists>hc ver sbom.
      attempts (trace (snd (verify_main pf cl w))) =
        attempts (trace w) @ replicate hc ReqHealthCheck
          @ replicate ver (ReqVerifySPDXSBOM (deref (flag_String cl ''key-id'' []))
              (deref (flag_String cl ''signature'' [])) sbom)
      \<and> (0 < ver \<longrightarrow> 0 < hc)"
    using verify_main_requests[of pf cl w] by blast
  have k: "\<exists>rs.
      attempts (trace (snd (keymgmt_main pf args cl w))) = attempts (trace w) @ rs
      \<and> (rs = [] \<or> rs = [ReqListKeys] \<or> rs = [ReqGenerateKey]
           \<or> (\<exists>keyID. rs = [ReqGetPublicKey keyID]))
      \<and> ReqHealthCheck \<notin> set rs"
    using keymgmt_main_requests[of pf args cl w] by auto
  show ?thesis using s v k by blast
qed

theorem health_check_precedes_sign_and_verify_witness:
  "attempts (trace (snd (sign_main (demo_platform service_up never_done True) with_key_id
      start_world))) = [ReqHealthCheck, ReqSignSBOM ''k1'' ''doc'']
   \<and> attempts (trace (snd (verify_main (demo_platform service_up never_done True) with_key_id
      start_world))) = [ReqHealthCheck, ReqVerifySPDXSBOM ''k1'' [] ''doc'']
   \<and> attempts (trace (snd (keymgmt_main (demo_platform service_up never_done True)
      [''keymgmt'', ''generate''] no_flags start_world))) = [ReqGenerateKey]"
  using health_check_precedes_sign_and_verify[of "demo_platform service_up never_done True"
      with_key_id start_world "[''keymgmt'', ''generate'']"]
  by (simp add: sign_main_def verify_main_def run_defs)

text \<open>
  C3 as stated fails: \<^verbatim>\<open>keymgmt list\<close> lists the keys without a health check.
\<close>

theorem keymgmt_list_without_health_check:
  "keymgmt_main (demo_platform service_up never_done True) [''keymgmt'', ''list''] no_flags
       start_world
   = (0, \<lparr>ext = 1, trace = [Progress (''Retrieving keys from SecureSBOM...'' @ nl),
          Attempt ReqListKeys,
          Table [[''KEY ID'', ''CREATED'', ''ALGORITHM''], [''------'', ''-------'', ''---------''],
                 [''No keys found'', [], []]]]\<rparr>)"
  by (simp add: run_defs)

subsection \<open>Retries in the three programs\<close>

text \<open>
  C10. \<^verbatim>\<open>createClient\<close> of keymgmt returns the result of \<^verbatim>\<open>BuildClient\<close> as it
  is, always a base client and never a retrying one, whereas \<^verbatim>\<open>createClient\<close> of sign
  and of verify wrap that same base client in a retrying client exactly when
  \<^verbatim>\<open>retries > 0\<close>, with \<open>MaxAttempts = retries\<close>, an initial wait of 1 s, a maximal wait
  of 10 s and multiplier 2; \<^verbatim>\<open>-retries\<close> defaults to 3. A run of keymgmt sends at most
  one request, and no integer flag (so no \<^verbatim>\<open>-retries\<close>) has any effect on it.
\<close>

theorem keymgmt_never_retries:
  fixes getenv :: "string \<Rightarrow> string option" and pf :: "'s platform"
  defines "built \<equiv> (\<lambda>apiKey baseURL timeout.
     BuildClient
       ((if baseURL \<noteq> [] then WithBaseURL baseURL else id)
          ((if apiKey \<noteq> [] then WithAPIKey apiKey else id)
             (FromEnv getenv (WithTimeout timeout NewConfigBuilder)))))"
  shows "keymgmt_createClient getenv apiKey baseURL timeout = built apiKey baseURL timeout
     \<and> (\<forall>c. keymgmt_createClient getenv apiKey baseURL timeout = Inr c
           \<longrightarrow> (\<exists>cfg. c = BaseClient cfg))
     \<and> sign_createClient getenv apiKey baseURL timeout retries =
         (case built apiKey baseURL timeout of
            Inl err \<Rightarrow> Inl (Wrapped ''failed to create base client'' err)
          | Inr base \<Rightarrow>
              if 0 < retries
              then Inr (RetryingClient base
                     \<lparr>MaxAttempts = retries, InitialWait = 1000000000, MaxWait = 10000000000,
                      Multiplier = 2\<rparr>)
              else Inr base)
     \<and> verify_createClient getenv apiKey baseURL timeout retries =
         sign_createClient getenv apiKey baseURL timeout retries
     \<and> (\<exists>rs. attempts (trace (snd (keymgmt_main pf args cl w))) = attempts (trace w) @ rs
           \<and> length rs \<le> 1)
     \<and> keymgmt_main pf args (cl\<lparr>int_flags := given\<rparr>) w = keymgmt_main pf args cl w
     \<and> (int_flags cl ''retries'' = None \<longrightarrow> deref (flag_Int cl ''retries'' 3) = 3)"
proof -
  have a: "keymgmt_createClient getenv apiKey baseURL timeout = built apiKey baseURL timeout"
    by (simp add: keymgmt_createClient_def built_def Let_def)
  have b: "\<forall>c. keymgmt_createClient getenv apiKey baseURL timeout = Inr c
           \<longrightarrow> (\<exists>cfg. c = BaseClient cfg)"
    using keymgmt_createClient_base by blast
  have c: "sign_createClient getenv apiKey baseURL timeout retries =
         (case built apiKey baseURL timeout of
            Inl err \<Rightarrow> Inl (Wrapped ''failed to create base client'' err)
          | Inr base \<Rightarrow>
              if 0 < retries
              then Inr (RetryingClient base
                     \<lparr>MaxAttempts = retries, InitialWait = 1000000000, MaxWait = 10000000000,
                      Multiplier = 2\<rparr>)
              else Inr base)"
    by (simp add: sign_createClient_def built_def Let_def WithRetryingClient_def Second_def
        split: sum.splits)
  have d: "verify_createClient getenv apiKey baseURL timeout retries =
         sign_createClient getenv apiKey baseURL timeout retries"
    by (simp add: sign_createClient_def verify_createClient_def)
  have e: "\<exists>rs. attempts (trace (snd (keymgmt_main pf args cl w))) = attempts (trace w) @ rs
           \<and> length rs \<le> 1"
    using keymgmt_main_requests[of pf args cl w] by auto
  have "runListCommand pf (cl\<lparr>int_flags := given\<rparr>) w = runListCommand pf cl w"
    "runGenerateCommand pf (cl\<lparr>int_flags := given\<rparr>) w = runGenerateCommand pf cl w"
    "runPublicCommand pf (cl\<lparr>int_flags := given\<rparr>) w = runPublicCommand pf cl w"
    by (simp_all add: runListCommand_def runGenerateCommand_def runPublicCommand_def
        flag_String_def flag_Bool_def flag_Duration_def Let_def)
  then have f: "keymgmt_main pf args (cl\<lparr>int_flags := given\<rparr>) w = keymgmt_main pf args cl w"
    by (simp add: keymgmt_main_def Let_def)
  have g: "int_flags cl ''retries'' = None \<longrightarrow> deref (flag_Int cl ''retries'' 3) = 3"
    by (simp add: flag_Int_def)
  show ?thesis using a b c d e f g by blast
qed

theorem keymgmt_never_retries_witness:
  "keymgmt_main (demo_platform service_down never_done True) [''keymgmt'', ''list''] no_flags
       start_world
   = (1, \<lparr>ext = 1, trace = [Progress (''Retrieving keys from SecureSBOM...'' @ nl),
          Attempt ReqListKeys,
          LogFatal ''Error listing keys'' (Some (APIError 503 ''unavailable''))]\<rparr>)
   \<and> int_flags with_key_id ''retries'' = None
   \<and> sign_main (demo_platform service_down never_done True) with_key_id start_world
   = (1, \<lparr>ext = 3, trace = [Progress (''Loading SBOM...'' @ nl),
         Progress (''Connecting to SecureSBOM API...'' @ nl), Attempt ReqHealthCheck,
         Waited 1000000000, Attempt ReqHealthCheck, Waited 2000000000, Attempt ReqHealthCheck,
         LogFatal ''Error connecting to API''
           (Some (RetriesExhausted (APIError 503 ''unavailable'')))]\<rparr>)"
  using keymgmt_never_retries[of "os_Getenv (demo_platform service_down never_done True)"
      "[]" "[]" "30 * Second" 3 "demo_platform service_down never_done True"
      "[''keymgmt'', ''list'']" no_flags start_world "\<lambda>name. None" ]
  by (simp add: sign_main_def run_defs)

end
